theory Spec2Isabelle
  imports Main "HOL-Library.Multiset" "HOL-Library.Product_Lexorder"
    "HOL-Library.List_Lexorder" "HOL-Library.Char_ord"
begin

section \<open>Data model\<close>

text \<open>
  The types of \<^verbatim>\<open>src/src/types/index.ts\<close>. A field the interface marks optional
  (\<^verbatim>\<open>value?: string\<close>) or that the code guards with \<^verbatim>\<open>|| []\<close> or \<^verbatim>\<open>?.\<close>
  is an \<open>option\<close>: \<open>None\<close> is the missing field. Fields keep their names, but for
  those two interfaces share and those that are reserved words here: \<^verbatim>\<open>type\<close> and
  \<^verbatim>\<open>value\<close> of a target audience are \<open>aud_type\<close> and \<open>aud_value\<close>, \<^verbatim>\<open>type\<close> of a
  notification is \<open>ntype\<close>, \<^verbatim>\<open>class\<close> and \<^verbatim>\<open>institution\<close> of a user are \<open>classOf\<close>
  and \<open>user_institution\<close>, and the fields of a feedback entry carry the prefix \<open>fb_\<close>
  where a registration has the same.
\<close>

datatype UserRole = ADMIN | LECTURER | STUDENT

datatype AudienceType = GENERAL | DEPARTMENT | CLASS

record TargetAudience =
  aud_type :: AudienceType
  aud_value :: "string option"

text \<open>A Firestore timestamp value: seconds since the epoch and the nanoseconds within.\<close>

record Timestamp =
  seconds :: int
  nanoseconds :: int

text \<open>
  \<^verbatim>\<open>Omit<Registration, 'registeredAt'>\<close> and \<^verbatim>\<open>Omit<Feedback, 'submittedAt'>\<close> are
  the records the client hands in; the stored entries extend them with the timestamp.
\<close>

record RegistrationInput =
  studentId :: string
  studentName :: string
  studentEmail :: string

record Registration = RegistrationInput +
  registeredAt :: Timestamp

record FeedbackInput =
  fb_studentId :: string
  fb_studentName :: string
  rating :: int
  comment :: string

record Feedback = FeedbackInput +
  submittedAt :: Timestamp

text \<open>
  An event document. The type of the \<open>date\<close> field is a parameter: in the store it is a
  timestamp value (\<open>Timestamp\<close>), in the data a Cloud Function reads off a snapshot it is
  a JavaScript object holding that value (\<open>TimestampObject\<close> below).
\<close>

record 'd Event =
  title :: string
  description :: string
  date :: 'd
  location :: string
  creatorId :: string
  creatorName :: string
  institution :: string
  targetAudience :: TargetAudience
  registrations :: "Registration list option"
  feedback :: "Feedback list option"

type_synonym EventDocument = "Timestamp Event"

text \<open>
  A document of the \<^verbatim>\<open>users\<close> collection: its id and its data. The \<^verbatim>\<open>uid\<close> field of
  the data is written by \<^verbatim>\<open>signUp\<close> and \<^verbatim>\<open>createUser\<close> and left out by the
  seed script, so it is optional.
\<close>

record UserDocument =
  user_doc_id :: string
  uid_field :: "string option"
  email :: string
  role :: UserRole
  user_institution :: string
  department :: "string option"
  classOf :: "string option"

datatype NotificationType =
  EVENT_CREATED | EVENT_UPDATED | EVENT_CANCELLED | REGISTRATION_CONFIRMED | EVENT_REMINDER

text \<open>
  A field of an object literal handed to the store: left out of the literal (\<open>Absent\<close>),
  written with the value \<^verbatim>\<open>null\<close> (\<open>Null\<close>), or written with a value.
\<close>

datatype 'a field = Absent | Null | Val 'a

datatype FieldValue = ServerTimestamp

record NotificationData =
  userId :: string
  ntype :: NotificationType
  message :: string
  eventId :: "string field"
  link :: "string field"
  isRead :: bool
  createdAt :: FieldValue

section \<open>Errors, the console and the store\<close>

datatype FunctionsErrorCode = Unauthenticated | PermissionDenied | InvalidArgument | Internal

datatype ErrorCode =
  UNAUTHORIZED | FORBIDDEN | NOT_FOUND | ALREADY_EXISTS | INVALID_INPUT | INTERNAL_ERROR

text \<open>
  What a \<^verbatim>\<open>throw\<close> or a rejected promise carries: an error of the Firebase SDK (any
  failure of the store or of the authentication service), an \<^verbatim>\<open>HttpsError\<close> of a
  callable function, or the \<^verbatim>\<open>AppError\<close> of the client library.
\<close>

datatype js_error =
  FirebaseError string
  | HttpsError FunctionsErrorCode string
  | AppError ErrorCode string nat

fun error_message :: "js_error \<Rightarrow> string" where
  "error_message (FirebaseError m) = m"
| "error_message (HttpsError c m) = m"
| "error_message (AppError c m s) = m"

datatype console_line = ConsoleLog string | ConsoleError string js_error

text \<open>
  The state a run can change or read: the three collections, the accounts of the
  authentication service, the console, and the batches whose commit was attempted so
  far (in order, accepted or not). Documents of \<^verbatim>\<open>notifications\<close> get ids of the
  store's own making, which the model leaves out.
\<close>

record World =
  users :: "UserDocument list"
  accounts :: "string list"
  events :: "(string \<times> EventDocument) list"
  notifications :: "NotificationData list"
  commits :: "NotificationData list list"
  console :: "console_line list"

text \<open>
  What the external services do on a run: a read, a \<^verbatim>\<open>batch.set\<close>, a commit, an
  account deletion or a document deletion fails with the given message when the field
  is \<open>Some\<close>; a commit of more than \<open>batch_limit\<close> operations is rejected as a whole.
\<close>

record Env =
  get_error :: "string option"
  set_error :: "string option"
  commit_error :: "string option"
  batch_limit :: nat
  auth_error :: "string option"
  delete_error :: "string option"

definition console_log :: "string \<Rightarrow> World \<Rightarrow> World" where
  "console_log m w = w\<lparr>console := console w @ [ConsoleLog m]\<rparr>"

definition console_error :: "string \<Rightarrow> js_error \<Rightarrow> World \<Rightarrow> World" where
  "console_error m e w = w\<lparr>console := console w @ [ConsoleError m e]\<rparr>"

text \<open>A count as a template literal prints it: its decimal digits.\<close>

definition digit_char :: "nat \<Rightarrow> char" where
  "digit_char d = ''0123456789'' ! d"

fun decimal :: "nat \<Rightarrow> string" where
  "decimal n =
     (if 10 \<le> n then decimal (n div 10) @ [digit_char (n mod 10)] else [digit_char n])"

declare decimal.simps [simp del]

text \<open>JavaScript truthiness of an optional string: missing and empty are falsy.\<close>

definition truthy :: "string option \<Rightarrow> bool" where
  "truthy v = (case v of None \<Rightarrow> False | Some s \<Rightarrow> s \<noteq> [])"

section \<open>Cloud Functions: audience resolution\<close>

text \<open>
  \<^verbatim>\<open>getTargetAudience\<close> of \<^verbatim>\<open>src/functions/src/index.ts\<close>. The query is built up
  filter by filter as the code does; \<^verbatim>\<open>get()\<close> either rejects or returns the
  documents that pass every filter, in the store's order. Each result is
  \<^verbatim>\<open>{ uid: doc.id, ...doc.data() }\<close>: a \<^verbatim>\<open>uid\<close> field of the data overrides the id.
\<close>

record AudienceUser =
  uid :: string
  user_data :: UserDocument

definition snapshot_user :: "UserDocument \<Rightarrow> AudienceUser" where
  "snapshot_user d =
     \<lparr>uid = (case uid_field d of Some u \<Rightarrow> u | None \<Rightarrow> user_doc_id d), user_data = d\<rparr>"

definition audience_query :: "string \<Rightarrow> TargetAudience \<Rightarrow> UserDocument \<Rightarrow> bool" where
  "audience_query inst ta =
     (let q0 = (\<lambda>u. user_institution u = inst);
          q1 = (\<lambda>u. q0 u \<and> role u = STUDENT)
      in if aud_type ta = DEPARTMENT \<and> truthy (aud_value ta)
           then (\<lambda>u. q1 u \<and> department u = aud_value ta)
         else if aud_type ta = CLASS \<and> truthy (aud_value ta)
           then (\<lambda>u. q1 u \<and> classOf u = aud_value ta)
         else q1)"

definition getTargetAudience ::
  "Env \<Rightarrow> World \<Rightarrow> string \<Rightarrow> TargetAudience \<Rightarrow> js_error + AudienceUser list" where
  "getTargetAudience env w inst ta =
     (case get_error env of
        Some m \<Rightarrow> Inl (FirebaseError m)
      | None \<Rightarrow> Inr (map snapshot_user (filter (audience_query inst ta) (users w))))"

section \<open>Cloud Functions: write batches and the catch clause\<close>

type_synonym WriteBatch = "NotificationData list"

definition batch_set :: "Env \<Rightarrow> WriteBatch \<Rightarrow> NotificationData \<Rightarrow> js_error + WriteBatch" where
  "batch_set env batch n =
     (case set_error env of
        Some m \<Rightarrow> Inl (FirebaseError m)
      | None \<Rightarrow> Inr (batch @ [n]))"

text \<open>
  \<^verbatim>\<open>batch.commit()\<close>: one request holding every operation of the batch, applied as a
  whole or not at all. The attempt is recorded in \<open>commits\<close> either way.
\<close>

definition batch_commit :: "Env \<Rightarrow> WriteBatch \<Rightarrow> World \<Rightarrow> (js_error + unit) \<times> World" where
  "batch_commit env batch w =
     (let w1 = w\<lparr>commits := commits w @ [batch]\<rparr>
      in case commit_error env of
           Some m \<Rightarrow> (Inl (FirebaseError m), w1)
         | None \<Rightarrow>
             if batch_limit env < length batch
               then (Inl (FirebaseError ''too many writes in one batch''), w1)
             else (Inr (), w1\<lparr>notifications := notifications w1 @ batch\<rparr>))"

text \<open>
  \<^verbatim>\<open>try { ... } catch (error) { console.error(label, error); }\<close>: whatever the body
  throws is logged, and the handler's promise resolves.
\<close>

definition catch_and_log ::
  "string \<Rightarrow> (js_error + unit) \<times> World \<Rightarrow> (js_error + unit) \<times> World" where
  "catch_and_log label r =
     (case r of
        (Inl error, w) \<Rightarrow> (Inr (), console_error label error w)
      | (Inr u, w) \<Rightarrow> (Inr u, w))"

definition or_empty :: "'a list option \<Rightarrow> 'a list" where
  "or_empty xs = (case xs of None \<Rightarrow> [] | Some ys \<Rightarrow> ys)"

section \<open>Cloud Functions: onEventCreated\<close>

text \<open>
  The create and delete handlers and the sweep read strings and the registrations array
  off \<^verbatim>\<open>snap.data()\<close> and compare no object, so they take the stored document as it
  is. The two statements before the \<^verbatim>\<open>try\<close> of a handler (\<^verbatim>\<open>snap.data()\<close> and
  \<^verbatim>\<open>context.params.eventId\<close>) cannot throw; the handler's arguments are their results.
\<close>

definition created_notification :: "string \<Rightarrow> string \<Rightarrow> AudienceUser \<Rightarrow> NotificationData" where
  "created_notification event_title event_id user =
     \<lparr>userId = uid user, ntype = EVENT_CREATED, message = ''New event: '' @ event_title,
      eventId = Val event_id, link = Val (''/events/'' @ event_id), isRead = False,
      createdAt = ServerTimestamp\<rparr>"

text \<open>The \<^verbatim>\<open>for (const user of usersToNotify)\<close> loop, with its \<^verbatim>\<open>continue\<close>.\<close>

fun created_loop ::
  "Env \<Rightarrow> EventDocument \<Rightarrow> string \<Rightarrow> AudienceUser list \<Rightarrow> WriteBatch \<Rightarrow> js_error + WriteBatch" where
  "created_loop env event event_id [] batch = Inr batch"
| "created_loop env event event_id (user # rest) batch =
     (if uid user = creatorId event then created_loop env event event_id rest batch
      else case batch_set env batch (created_notification (title event) event_id user) of
             Inl e \<Rightarrow> Inl e
           | Inr batch' \<Rightarrow> created_loop env event event_id rest batch')"

definition onEventCreated_try ::
  "Env \<Rightarrow> World \<Rightarrow> EventDocument \<Rightarrow> string \<Rightarrow> (js_error + unit) \<times> World" where
  "onEventCreated_try env w event event_id =
     (let w1 = console_log (''Event created: '' @ title event @ '' ('' @ event_id @ '')'') w
      in (case getTargetAudience env w1 (institution event) (targetAudience event) of
            Inl e \<Rightarrow> (Inl e, w1)
          | Inr usersToNotify \<Rightarrow>
              (case created_loop env event event_id usersToNotify [] of
                 Inl e \<Rightarrow> (Inl e, w1)
               | Inr batch \<Rightarrow>
                   (case batch_commit env batch w1 of
                      (Inl e, w2) \<Rightarrow> (Inl e, w2)
                    | (Inr u, w2) \<Rightarrow>
                        (Inr (), console_log (''Created '' @ decimal (length usersToNotify)
                                                @ '' notifications'') w2)))))"

definition onEventCreated ::
  "Env \<Rightarrow> World \<Rightarrow> EventDocument \<Rightarrow> string \<Rightarrow> (js_error + unit) \<times> World" where
  "onEventCreated env w event event_id =
     catch_and_log ''Error in onEventCreated:'' (onEventCreated_try env w event event_id)"

section \<open>Cloud Functions: onEventUpdated\<close>

text \<open>
  \<^verbatim>\<open>change.before.data()\<close> and \<^verbatim>\<open>change.after.data()\<close> each decode their snapshot
  into a JavaScript object tree of their own. Strings are primitives and compare by
  value. The \<^verbatim>\<open>date\<close> field is a timestamp in the store (\<^verbatim>\<open>createEvent\<close> and
  \<^verbatim>\<open>updateEvent\<close> write it through \<^verbatim>\<open>dateToTimestamp\<close>, and the reminder query compares
  it with timestamps), so each call builds a new \<^verbatim>\<open>Timestamp\<close> object for it; objects
  compare by reference under \<^verbatim>\<open>!==\<close>. The model keeps the reference of that one
  object: \<open>snapshot_data\<close> takes the next free reference and returns the one after.
\<close>

datatype TimestampObject = TimestampObject (obj_ref: nat) (obj_value: Timestamp)

type_synonym EventData = "TimestampObject Event"

definition snapshot_data :: "EventDocument \<Rightarrow> nat \<Rightarrow> EventData \<times> nat" where
  "snapshot_data d heap =
     (\<lparr>title = title d, description = description d, date = TimestampObject heap (date d),
       location = location d, creatorId = creatorId d, creatorName = creatorName d,
       institution = institution d, targetAudience = targetAudience d,
       registrations = registrations d, feedback = feedback d\<rparr>,
      Suc heap)"

text \<open>\<^verbatim>\<open>a !== b\<close> on two objects: they are not the same object.\<close>

definition strict_neq_object :: "TimestampObject \<Rightarrow> TimestampObject \<Rightarrow> bool" where
  "strict_neq_object a b = (obj_ref a \<noteq> obj_ref b)"

definition criticalFieldsChanged :: "EventData \<Rightarrow> EventData \<Rightarrow> bool" where
  "criticalFieldsChanged before after =
     (title before \<noteq> title after \<or>
      strict_neq_object (date before) (date after) \<or>
      location before \<noteq> location after)"

definition updated_notification :: "string \<Rightarrow> string \<Rightarrow> Registration \<Rightarrow> NotificationData" where
  "updated_notification event_title event_id registration =
     \<lparr>userId = studentId registration, ntype = EVENT_UPDATED,
      message = ''Event \"'' @ event_title @ ''\" has been updated'',
      eventId = Val event_id, link = Val (''/events/'' @ event_id), isRead = False,
      createdAt = ServerTimestamp\<rparr>"

text \<open>
  The \<^verbatim>\<open>for (const registration of registrations)\<close> loop of the update, delete and
  reminder handlers: one \<^verbatim>\<open>batch.set\<close> per entry, with the handler's own document.
\<close>

fun registrations_loop ::
  "Env \<Rightarrow> (Registration \<Rightarrow> NotificationData) \<Rightarrow> Registration list \<Rightarrow> WriteBatch
     \<Rightarrow> js_error + WriteBatch" where
  "registrations_loop env doc_of [] batch = Inr batch"
| "registrations_loop env doc_of (registration # rest) batch =
     (case batch_set env batch (doc_of registration) of
        Inl e \<Rightarrow> Inl e
      | Inr batch' \<Rightarrow> registrations_loop env doc_of rest batch')"

definition onEventUpdated_try ::
  "Env \<Rightarrow> World \<Rightarrow> EventData \<Rightarrow> EventData \<Rightarrow> string \<Rightarrow> (js_error + unit) \<times> World" where
  "onEventUpdated_try env w before after event_id =
     (if \<not> criticalFieldsChanged before after then (Inr (), w)
      else
        let w1 = console_log (''Event updated: '' @ title after @ '' ('' @ event_id @ '')'') w;
            regs = or_empty (registrations after)
        in if length regs = 0 then (Inr (), w1)
           else
             case registrations_loop env (updated_notification (title after) event_id) regs [] of
               Inl e \<Rightarrow> (Inl e, w1)
             | Inr batch \<Rightarrow>
                 (case batch_commit env batch w1 of
                    (Inl e, w2) \<Rightarrow> (Inl e, w2)
                  | (Inr u, w2) \<Rightarrow>
                      (Inr (), console_log (''Notified '' @ decimal (length regs)
                                              @ '' registered students'') w2)))"

text \<open>The handler receives the two snapshots of the change.\<close>

definition onEventUpdated ::
  "Env \<Rightarrow> World \<Rightarrow> EventDocument \<Rightarrow> EventDocument \<Rightarrow> string \<Rightarrow> (js_error + unit) \<times> World" where
  "onEventUpdated env w change_before change_after event_id =
     (let (before, heap1) = snapshot_data change_before 0;
          (after, heap2) = snapshot_data change_after heap1
      in catch_and_log ''Error in onEventUpdated:''
           (onEventUpdated_try env w before after event_id))"

section \<open>Cloud Functions: onEventDeleted\<close>

definition cancelled_notification :: "string \<Rightarrow> Registration \<Rightarrow> NotificationData" where
  "cancelled_notification event_title registration =
     \<lparr>userId = studentId registration, ntype = EVENT_CANCELLED,
      message = ''Event \"'' @ event_title @ ''\" has been cancelled'',
      eventId = Null, link = Null, isRead = False, createdAt = ServerTimestamp\<rparr>"

definition onEventDeleted_try ::
  "Env \<Rightarrow> World \<Rightarrow> EventDocument \<Rightarrow> string \<Rightarrow> (js_error + unit) \<times> World" where
  "onEventDeleted_try env w event event_id =
     (let w1 = console_log (''Event deleted: '' @ title event @ '' ('' @ event_id @ '')'') w;
          regs = or_empty (registrations event)
      in if length regs = 0 then (Inr (), w1)
         else
           case registrations_loop env (cancelled_notification (title event)) regs [] of
             Inl e \<Rightarrow> (Inl e, w1)
           | Inr batch \<Rightarrow>
               (case batch_commit env batch w1 of
                  (Inl e, w2) \<Rightarrow> (Inl e, w2)
                | (Inr u, w2) \<Rightarrow>
                    (Inr (), console_log (''Notified '' @ decimal (length regs)
                                            @ '' students about cancellation'') w2)))"

definition onEventDeleted ::
  "Env \<Rightarrow> World \<Rightarrow> EventDocument \<Rightarrow> string \<Rightarrow> (js_error + unit) \<times> World" where
  "onEventDeleted env w event event_id =
     catch_and_log ''Error in onEventDeleted:'' (onEventDeleted_try env w event event_id)"

section \<open>Cloud Functions: sendEventReminders\<close>

text \<open>
  \<^verbatim>\<open>Timestamp.fromMillis\<close>, through which both \<^verbatim>\<open>Timestamp.now()\<close> and
  \<^verbatim>\<open>Timestamp.fromDate\<close> go, and the order the store compares timestamps in.
\<close>

definition fromMillis :: "int \<Rightarrow> Timestamp" where
  "fromMillis ms = \<lparr>seconds = ms div 1000, nanoseconds = (ms mod 1000) * 1000000\<rparr>"

definition ts_le :: "Timestamp \<Rightarrow> Timestamp \<Rightarrow> bool" where
  "ts_le a b =
     (seconds a < seconds b \<or> (seconds a = seconds b \<and> nanoseconds a \<le> nanoseconds b))"

definition reminder_notification :: "string \<Rightarrow> string \<Rightarrow> Registration \<Rightarrow> NotificationData" where
  "reminder_notification event_title event_id registration =
     \<lparr>userId = studentId registration, ntype = EVENT_REMINDER,
      message = ''Reminder: \"'' @ event_title @ ''\" is happening soon!'',
      eventId = Val event_id, link = Val (''/events/'' @ event_id), isRead = False,
      createdAt = ServerTimestamp\<rparr>"

text \<open>The inner loop, which also counts, and the loop over the matching documents.\<close>

fun reminder_inner ::
  "Env \<Rightarrow> string \<Rightarrow> string \<Rightarrow> Registration list \<Rightarrow> WriteBatch \<times> nat
     \<Rightarrow> js_error + WriteBatch \<times> nat" where
  "reminder_inner env event_title event_id [] acc = Inr acc"
| "reminder_inner env event_title event_id (registration # rest) (batch, notificationCount) =
     (case batch_set env batch (reminder_notification event_title event_id registration) of
        Inl e \<Rightarrow> Inl e
      | Inr batch' \<Rightarrow>
          reminder_inner env event_title event_id rest (batch', notificationCount + 1))"

fun reminder_outer ::
  "Env \<Rightarrow> (string \<times> EventDocument) list \<Rightarrow> WriteBatch \<times> nat \<Rightarrow> js_error + WriteBatch \<times> nat" where
  "reminder_outer env [] acc = Inr acc"
| "reminder_outer env ((doc_id, event) # rest) acc =
     (case reminder_inner env (title event) doc_id (or_empty (registrations event)) acc of
        Inl e \<Rightarrow> Inl e
      | Inr acc' \<Rightarrow> reminder_outer env rest acc')"

text \<open>
  The body reads the clock twice: \<open>clock1\<close> is the \<^verbatim>\<open>Date.now()\<close> inside
  \<^verbatim>\<open>Timestamp.now()\<close>, \<open>clock2\<close> the \<^verbatim>\<open>Date.now()\<close> of the next statement, both in
  milliseconds. The query keeps the events whose date lies between the two bounds; a
  query with a range filter returns its documents ordered by the filtered field and,
  among equal values, by document id.
\<close>

definition date_key :: "string \<times> EventDocument \<Rightarrow> int \<times> int \<times> string" where
  "date_key d = (seconds (date (snd d)), nanoseconds (date (snd d)), fst d)"

definition order_by_date :: "(string \<times> EventDocument) list \<Rightarrow> (string \<times> EventDocument) list" where
  "order_by_date docs = sort_key date_key docs"

definition events_between :: "Timestamp \<Rightarrow> Timestamp \<Rightarrow> World \<Rightarrow> (string \<times> EventDocument) list" where
  "events_between lo hi w =
     order_by_date
       (filter (\<lambda>(doc_id, event). ts_le lo (date event) \<and> ts_le (date event) hi) (events w))"

definition sendEventReminders_try ::
  "Env \<Rightarrow> World \<Rightarrow> int \<Rightarrow> int \<Rightarrow> (js_error + unit) \<times> World" where
  "sendEventReminders_try env w clock1 clock2 =
     (let w1 = console_log ''Running scheduled event reminders'' w;
          now = fromMillis clock1;
          tomorrow = fromMillis (clock2 + 24 * 60 * 60 * 1000)
      in case get_error env of
           Some m \<Rightarrow> (Inl (FirebaseError m), w1)
         | None \<Rightarrow>
             (let docs = events_between now tomorrow w1
              in if docs = [] then (Inr (), console_log ''No events in the next 24 hours'' w1)
                 else
                   (case reminder_outer env docs ([], 0) of
                      Inl e \<Rightarrow> (Inl e, w1)
                    | Inr (batch, notificationCount) \<Rightarrow>
                        if notificationCount > 0 then
                          (case batch_commit env batch w1 of
                             (Inl e, w2) \<Rightarrow> (Inl e, w2)
                           | (Inr u, w2) \<Rightarrow>
                               (Inr (), console_log (''Sent '' @ decimal notificationCount
                                                       @ '' event reminders'') w2))
                        else (Inr (), w1))))"

definition sendEventReminders ::
  "Env \<Rightarrow> World \<Rightarrow> int \<Rightarrow> int \<Rightarrow> (js_error + unit) \<times> World" where
  "sendEventReminders env w clock1 clock2 =
     catch_and_log ''Error in sendEventReminders:'' (sendEventReminders_try env w clock1 clock2)"

section \<open>Cloud Functions: deleteUser\<close>

text \<open>
  The body of the \<^verbatim>\<open>try\<close> block. \<open>auth_uid\<close> is \<^verbatim>\<open>context.auth.uid\<close> and
  \<open>data_userId\<close> is \<^verbatim>\<open>data.userId\<close>. Every \<^verbatim>\<open>throw\<close> of the block, the
  \<^verbatim>\<open>HttpsError\<close>s included, leaves it as \<open>Inl\<close>. A read of a user document that
  does not exist gives \<^verbatim>\<open>undefined\<close> data, here \<open>None\<close>.
\<close>

definition deleteUser_try ::
  "Env \<Rightarrow> World \<Rightarrow> string \<Rightarrow> string \<Rightarrow> (js_error + bool) \<times> World" where
  "deleteUser_try env w data_userId auth_uid =
     (case get_error env of
        Some m \<Rightarrow> (Inl (FirebaseError m), w)
      | None \<Rightarrow>
          (case find (\<lambda>u. user_doc_id u = auth_uid) (users w) of
             None \<Rightarrow> (Inl (HttpsError PermissionDenied ''Only admins can delete users''), w)
           | Some caller \<Rightarrow>
               if role caller \<noteq> ADMIN
                 then (Inl (HttpsError PermissionDenied ''Only admins can delete users''), w)
               else if data_userId = auth_uid
                 then (Inl (HttpsError InvalidArgument ''Cannot delete your own account''), w)
               else
                 (case find (\<lambda>u. user_doc_id u = data_userId) (users w) of
                    None \<Rightarrow>
                      (Inl (HttpsError PermissionDenied
                              ''Cannot delete users from other institutions''), w)
                  | Some userToDelete \<Rightarrow>
                      if user_institution userToDelete \<noteq> user_institution caller
                        then (Inl (HttpsError PermissionDenied
                                     ''Cannot delete users from other institutions''), w)
                      else
                        (case auth_error env of
                           Some m \<Rightarrow> (Inl (FirebaseError m), w)
                         | None \<Rightarrow>
                             (let w1 = w\<lparr>accounts := filter (\<lambda>a. a \<noteq> data_userId) (accounts w)\<rparr>
                              in (case delete_error env of
                                    Some m \<Rightarrow> (Inl (FirebaseError m), w1)
                                  | None \<Rightarrow>
                                      (Inr True,
                                       console_log (''User deleted: '' @ data_userId)
                                         (w1\<lparr>users := filter (\<lambda>u. user_doc_id u \<noteq> data_userId)
                                                          (users w1)\<rparr>))))))))"

text \<open>
  The callable: the authentication check stands before the \<^verbatim>\<open>try\<close>; the
  \<^verbatim>\<open>catch\<close> logs whatever the block threw and throws
  \<^verbatim>\<open>new HttpsError('internal', error.message || 'Failed to delete user')\<close>.
\<close>

definition deleteUser ::
  "Env \<Rightarrow> World \<Rightarrow> string \<Rightarrow> string option \<Rightarrow> (js_error + bool) \<times> World" where
  "deleteUser env w data_userId context_auth =
     (case context_auth of
        None \<Rightarrow> (Inl (HttpsError Unauthenticated ''Must be authenticated''), w)
      | Some auth_uid \<Rightarrow>
          (case deleteUser_try env w data_userId auth_uid of
             (Inl error, w1) \<Rightarrow>
               (Inl (HttpsError Internal
                       (if error_message error \<noteq> [] then error_message error
                        else ''Failed to delete user'')),
                console_error ''Error deleting user:'' error w1)
           | (Inr r, w1) \<Rightarrow> (Inr r, w1)))"

section \<open>Client library: registerForEvent and submitFeedback\<close>

text \<open>
  \<^verbatim>\<open>src/src/lib/firestore.ts\<close>. The write \<^verbatim>\<open>updateDoc(eventRef, ...)\<close> belongs to the
  Firestore SDK; the functions take it as the parameter \<open>updateDoc\<close>, applied to the
  state, the event id and the update.
\<close>

datatype EventUpdate =
  RegistrationsArrayUnion RegistrationInput
  | FeedbackArrayUnion FeedbackInput

type_synonym UpdateDoc = "World \<Rightarrow> string \<Rightarrow> EventUpdate \<Rightarrow> (js_error + unit) \<times> World"

definition checkAuth :: "string option \<Rightarrow> js_error + string" where
  "checkAuth currentUser =
     (case currentUser of
        None \<Rightarrow> Inl (AppError UNAUTHORIZED ''User not authenticated'' 401)
      | Some user_uid \<Rightarrow> Inr user_uid)"

definition getDoc :: "Env \<Rightarrow> World \<Rightarrow> string \<Rightarrow> js_error + EventDocument option" where
  "getDoc env w event_id =
     (case get_error env of
        Some m \<Rightarrow> Inl (FirebaseError m)
      | None \<Rightarrow> Inr (map_of (events w) event_id))"

text \<open>\<^verbatim>\<open>xs?.some(p)\<close>: \<^verbatim>\<open>undefined\<close>, which is falsy, when the array is missing.\<close>

definition optional_some :: "('a \<Rightarrow> bool) \<Rightarrow> 'a list option \<Rightarrow> bool" where
  "optional_some p xs = (case xs of None \<Rightarrow> False | Some ys \<Rightarrow> list_ex p ys)"

text \<open>
  \<^verbatim>\<open>catch (error) { console.error(label, error); if (error instanceof AppError) throw
  error; throw new AppError(INTERNAL_ERROR, message, 500); }\<close>
\<close>

definition rethrow_app_error ::
  "string \<Rightarrow> string \<Rightarrow> (js_error + unit) \<times> World \<Rightarrow> (js_error + unit) \<times> World" where
  "rethrow_app_error label failure r =
     (case r of
        (Inl error, w) \<Rightarrow>
          (case error of
             AppError c m s \<Rightarrow> (Inl error, console_error label error w)
           | _ \<Rightarrow> (Inl (AppError INTERNAL_ERROR failure 500), console_error label error w))
      | (Inr u, w) \<Rightarrow> (Inr u, w))"

definition registerForEvent_try ::
  "UpdateDoc \<Rightarrow> Env \<Rightarrow> World \<Rightarrow> string option \<Rightarrow> string \<Rightarrow> RegistrationInput
     \<Rightarrow> (js_error + unit) \<times> World" where
  "registerForEvent_try updateDoc env w currentUser event_id registration =
     (case checkAuth currentUser of
        Inl e \<Rightarrow> (Inl e, w)
      | Inr user_uid \<Rightarrow>
          (case getDoc env w event_id of
             Inl e \<Rightarrow> (Inl e, w)
           | Inr None \<Rightarrow> (Inl (AppError NOT_FOUND ''Event not found'' 404), w)
           | Inr (Some event) \<Rightarrow>
               let isAlreadyRegistered =
                     optional_some (\<lambda>r. studentId r = studentId registration)
                       (registrations event)
               in if isAlreadyRegistered
                    then (Inl (AppError ALREADY_EXISTS ''Already registered for this event'' 409), w)
                  else updateDoc w event_id (RegistrationsArrayUnion registration)))"

definition registerForEvent ::
  "UpdateDoc \<Rightarrow> Env \<Rightarrow> World \<Rightarrow> string option \<Rightarrow> string \<Rightarrow> RegistrationInput
     \<Rightarrow> (js_error + unit) \<times> World" where
  "registerForEvent updateDoc env w currentUser event_id registration =
     rethrow_app_error ''Register for event error:'' ''Failed to register for event''
       (registerForEvent_try updateDoc env w currentUser event_id registration)"

definition submitFeedback_try ::
  "UpdateDoc \<Rightarrow> Env \<Rightarrow> World \<Rightarrow> string option \<Rightarrow> string \<Rightarrow> FeedbackInput
     \<Rightarrow> (js_error + unit) \<times> World" where
  "submitFeedback_try updateDoc env w currentUser event_id fb =
     (case checkAuth currentUser of
        Inl e \<Rightarrow> (Inl e, w)
      | Inr user_uid \<Rightarrow>
          (case getDoc env w event_id of
             Inl e \<Rightarrow> (Inl e, w)
           | Inr None \<Rightarrow> (Inl (AppError NOT_FOUND ''Event not found'' 404), w)
           | Inr (Some event) \<Rightarrow>
               let hasAlreadySubmitted =
                     optional_some (\<lambda>f. fb_studentId f = fb_studentId fb) (feedback event)
               in if hasAlreadySubmitted
                    then (Inl (AppError ALREADY_EXISTS ''Feedback already submitted'' 409), w)
                  else updateDoc w event_id (FeedbackArrayUnion fb)))"

definition submitFeedback ::
  "UpdateDoc \<Rightarrow> Env \<Rightarrow> World \<Rightarrow> string option \<Rightarrow> string \<Rightarrow> FeedbackInput
     \<Rightarrow> (js_error + unit) \<times> World" where
  "submitFeedback updateDoc env w currentUser event_id fb =
     rethrow_app_error ''Submit feedback error:'' ''Failed to submit feedback''
       (submitFeedback_try updateDoc env w currentUser event_id fb)"

section \<open>Specification functions\<close>

text \<open>
  What the claims speak of, written independently of the handlers: the audience of a
  new event without its creator, the reminders a list of event documents calls for
  (one per registration entry, in order), and the window of the reminder sweep.
\<close>

definition created_recipients :: "World \<Rightarrow> EventDocument \<Rightarrow> AudienceUser list" where
  "created_recipients w event =
     filter (\<lambda>u. uid u \<noteq> creatorId event)
       (map snapshot_user
          (filter (audience_query (institution event) (targetAudience event)) (users w)))"

definition reminders_of :: "(string \<times> EventDocument) list \<Rightarrow> NotificationData list" where
  "reminders_of docs =
     concat (map (\<lambda>(doc_id, event). map (reminder_notification (title event) doc_id)
                                      (or_empty (registrations event))) docs)"

definition plus_24h :: "Timestamp \<Rightarrow> Timestamp" where
  "plus_24h t = t\<lparr>seconds := seconds t + 24 * 60 * 60\<rparr>"

definition in_next_24h :: "int \<Rightarrow> string \<times> EventDocument \<Rightarrow> bool" where
  "in_next_24h now d =
     (ts_le (fromMillis now) (date (snd d)) \<and> ts_le (date (snd d)) (plus_24h (fromMillis now)))"

text \<open>
  The window of a run that reads the clock twice: from the first reading to 24 hours
  after the second.
\<close>

definition in_window :: "int \<Rightarrow> int \<Rightarrow> string \<times> EventDocument \<Rightarrow> bool" where
  "in_window clock1 clock2 d =
     (ts_le (fromMillis clock1) (date (snd d)) \<and>
      ts_le (date (snd d)) (plus_24h (fromMillis clock2)))"

section \<open>Example data\<close>

text \<open>Services that work, with the batch limit of 500, and services that fail.\<close>

definition env_ok :: Env where
  "env_ok = \<lparr>get_error = None, set_error = None, commit_error = None, batch_limit = 500,
             auth_error = None, delete_error = None\<rparr>"





definition alice :: UserDocument where
  "alice = \<lparr>user_doc_id = ''alice'', uid_field = None, email = ''alice@uni.example'',
            role = STUDENT, user_institution = ''State University'',
            department = Some ''Computer Science'', classOf = Some ''CS101''\<rparr>"

definition bob :: UserDocument where
  "bob = \<lparr>user_doc_id = ''bob'', uid_field = Some ''bob'', email = ''bob@uni.example'',
          role = STUDENT, user_institution = ''State University'',
          department = Some ''Fine Arts'', classOf = None\<rparr>"

definition carol :: UserDocument where
  "carol = \<lparr>user_doc_id = ''carol'', uid_field = Some ''carol'', email = ''carol@uni.example'',
            role = LECTURER, user_institution = ''State University'',
            department = Some ''Computer Science'', classOf = None\<rparr>"

definition dave :: UserDocument where
  "dave = \<lparr>user_doc_id = ''dave'', uid_field = Some ''dave'', email = ''dave@other.example'',
           role = STUDENT, user_institution = ''Other College'',
           department = Some ''Computer Science'', classOf = Some ''CS101''\<rparr>"

definition erin :: UserDocument where
  "erin = \<lparr>user_doc_id = ''erin'', uid_field = Some ''erin'', email = ''erin@uni.example'',
           role = ADMIN, user_institution = ''State University'',
           department = None, classOf = None\<rparr>"

definition campus :: World where
  "campus = \<lparr>users = [alice, bob, carol, dave, erin],
             accounts = [''alice'', ''bob'', ''carol'', ''dave'', ''erin''],
             events = [], notifications = [], commits = [], console = []\<rparr>"

definition reg_alice :: Registration where
  "reg_alice = \<lparr>studentId = ''alice'', studentName = ''Alice'',
                 studentEmail = ''alice@uni.example'',
                 registeredAt = \<lparr>seconds = 1699000000, nanoseconds = 0\<rparr>\<rparr>"

definition reg_bob :: Registration where
  "reg_bob = \<lparr>studentId = ''bob'', studentName = ''Bob'',
               studentEmail = ''bob@uni.example'',
               registeredAt = \<lparr>seconds = 1699000500, nanoseconds = 0\<rparr>\<rparr>"

definition reg_carol :: Registration where
  "reg_carol = \<lparr>studentId = ''carol'', studentName = ''Carol'',
                 studentEmail = ''carol@uni.example'',
                 registeredAt = \<lparr>seconds = 1699000900, nanoseconds = 0\<rparr>\<rparr>"

definition fb_bob :: Feedback where
  "fb_bob = \<lparr>fb_studentId = ''bob'', fb_studentName = ''Bob'', rating = 4,
              comment = ''Useful'', submittedAt = \<lparr>seconds = 1690100000, nanoseconds = 0\<rparr>\<rparr>"

text \<open>An event of the lecturer Carol, who has put herself on its registration list.\<close>

definition fair :: EventDocument where
  "fair = \<lparr>title = ''Fair'', description = ''Annual career fair'',
            date = \<lparr>seconds = 1700000000, nanoseconds = 0\<rparr>, location = ''Hall A'',
            creatorId = ''carol'', creatorName = ''Carol'', institution = ''State University'',
            targetAudience = \<lparr>aud_type = GENERAL, aud_value = None\<rparr>,
            registrations = Some [reg_carol, reg_alice], feedback = Some []\<rparr>"

text \<open>An event the student Alice has created herself, 48 hours after the fair's eve.\<close>

definition study_group :: EventDocument where
  "study_group = \<lparr>title = ''Study group'', description = ''Exam preparation'',
            date = \<lparr>seconds = 1700129600, nanoseconds = 0\<rparr>, location = ''Library'',
            creatorId = ''alice'', creatorName = ''Alice'', institution = ''State University'',
            targetAudience = \<lparr>aud_type = GENERAL, aud_value = None\<rparr>,
            registrations = Some [reg_bob], feedback = Some []\<rparr>"

definition past_talk :: EventDocument where
  "past_talk = \<lparr>title = ''Guest lecture'', description = ''A talk held last term'',
            date = \<lparr>seconds = 1690000000, nanoseconds = 0\<rparr>, location = ''Lecture Hall C'',
            creatorId = ''carol'', creatorName = ''Carol'', institution = ''State University'',
            targetAudience = \<lparr>aud_type = CLASS, aud_value = Some ''CS101''\<rparr>,
            registrations = Some [reg_bob], feedback = Some [fb_bob]\<rparr>"

definition town :: World where
  "town = campus\<lparr>events := [(''e1'', fair), (''e2'', study_group), (''e3'', past_talk)]\<rparr>"

text \<open>A workshop one hour after the fair, stored before it.\<close>

definition workshop :: EventDocument where
  "workshop = \<lparr>title = ''Workshop'', description = ''Hands-on session'',
            date = \<lparr>seconds = 1700003600, nanoseconds = 0\<rparr>, location = ''Lab 3'',
            creatorId = ''carol'', creatorName = ''Carol'', institution = ''State University'',
            targetAudience = \<lparr>aud_type = CLASS, aud_value = Some ''CS101''\<rparr>,
            registrations = Some [reg_bob], feedback = Some []\<rparr>"

definition village :: World where
  "village = campus\<lparr>events := [(''e5'', workshop), (''e1'', fair)]\<rparr>"

text \<open>A talk one millisecond more than 24 hours after the fair's eve.\<close>

definition late_talk :: EventDocument where
  "late_talk = \<lparr>title = ''Late talk'', description = ''Evening lecture'',
            date = \<lparr>seconds = 1700043200, nanoseconds = 1000000\<rparr>, location = ''Hall A'',
            creatorId = ''carol'', creatorName = ''Carol'', institution = ''State University'',
            targetAudience = \<lparr>aud_type = GENERAL, aud_value = None\<rparr>,
            registrations = Some [reg_bob], feedback = Some []\<rparr>"

text \<open>The fair with \<open>n\<close> registrants \<^verbatim>\<open>s0\<close>, \<^verbatim>\<open>s1\<close>, and so on.\<close>

definition full_fair :: "nat \<Rightarrow> EventDocument" where
  "full_fair n =
     fair\<lparr>registrations :=
            Some (map (\<lambda>i. \<lparr>studentId = ''s'' @ decimal i, studentName = ''Student'',
                             studentEmail = ''s'' @ decimal i @ ''@uni.example'',
                             registeredAt = \<lparr>seconds = 1699000000, nanoseconds = 0\<rparr>\<rparr>)
                      [0..<n])\<rparr>"


text \<open>A write that would empty the collection, to see whether it is ever reached.\<close>

definition updateDoc_wipes :: UpdateDoc where
  "updateDoc_wipes w event_id u = (Inr (), w\<lparr>events := []\<rparr>)"

section \<open>Lemmas on the loops and the store\<close>

lemma truthy_simps: "truthy None = False" "truthy (Some s) = (s \<noteq> [])"
  by (simp_all add: truthy_def)

lemma created_loop_ok:
  "set_error env = None \<Longrightarrow>
   created_loop env ev eid us batch =
     Inr (batch @ map (created_notification (title ev) eid) (filter (\<lambda>u. uid u \<noteq> creatorId ev) us))"
  by (induction us arbitrary: batch) (auto simp: batch_set_def)

lemma created_loop_fail:
  "set_error env = Some m \<Longrightarrow>
   created_loop env ev eid us batch =
     (if filter (\<lambda>u. uid u \<noteq> creatorId ev) us = [] then Inr batch else Inl (FirebaseError m))"
  by (induction us arbitrary: batch) (auto simp: batch_set_def)

lemma created_loop_Inr:
  "created_loop env ev eid us batch = Inr b \<Longrightarrow>
   b = batch @ map (created_notification (title ev) eid) (filter (\<lambda>u. uid u \<noteq> creatorId ev) us)"
  by (cases "set_error env") (auto simp: created_loop_ok created_loop_fail split: if_splits)

lemma registrations_loop_ok:
  "set_error env = None \<Longrightarrow> registrations_loop env f rs batch = Inr (batch @ map f rs)"
  by (induction rs arbitrary: batch) (auto simp: batch_set_def)

lemma registrations_loop_fail:
  "set_error env = Some m \<Longrightarrow>
   registrations_loop env f rs batch = (if rs = [] then Inr batch else Inl (FirebaseError m))"
  by (cases rs) (auto simp: batch_set_def)

lemma registrations_loop_Inr:
  "registrations_loop env f rs batch = Inr b \<Longrightarrow> b = batch @ map f rs"
  by (cases "set_error env") (auto simp: registrations_loop_ok registrations_loop_fail split: if_splits)

lemma reminder_inner_ok:
  "set_error env = None \<Longrightarrow>
   reminder_inner env t eid rs (batch, n) =
     Inr (batch @ map (reminder_notification t eid) rs, n + length rs)"
  by (induction rs arbitrary: batch n) (auto simp: batch_set_def)

lemma reminder_outer_ok:
  "set_error env = None \<Longrightarrow>
   reminder_outer env docs (batch, n) =
     Inr (batch @ reminders_of docs, n + length (reminders_of docs))"
  by (induction docs arbitrary: batch n) (auto simp: reminder_inner_ok reminders_of_def)

lemma batch_commit_cases:
  "batch_commit env batch w =
     (if commit_error env = None \<and> length batch \<le> batch_limit env
      then (Inr (), w\<lparr>commits := commits w @ [batch],
                       notifications := notifications w @ batch\<rparr>)
      else (Inl (FirebaseError (case commit_error env of Some m \<Rightarrow> m
                                | None \<Rightarrow> ''too many writes in one batch'')),
            w\<lparr>commits := commits w @ [batch]\<rparr>))"
  by (auto simp: batch_commit_def Let_def split: option.splits)

lemma console_log_fields:
  "users (console_log m w) = users w"
  "events (console_log m w) = events w"
  "notifications (console_log m w) = notifications w"
  "commits (console_log m w) = commits w"
  by (simp_all add: console_log_def)

lemma console_error_fields:
  "users (console_error m e w) = users w"
  "events (console_error m e w) = events w"
  "notifications (console_error m e w) = notifications w"
  "commits (console_error m e w) = commits w"
  by (simp_all add: console_error_def)

lemma batch_commit_fields:
  "commits (snd (batch_commit env batch w)) = commits w @ [batch]"
  "notifications (snd (batch_commit env batch w)) =
     (if commit_error env = None \<and> length batch \<le> batch_limit env
      then notifications w @ batch else notifications w)"
  by (simp_all add: batch_commit_cases)

lemma after_commit_fields:
  "commits (snd (case r of (Inl e, w2) \<Rightarrow> (Inl e, w2)
                 | (Inr u, w2) \<Rightarrow> (Inr (), console_log m w2))) = commits (snd r)"
  "notifications (snd (case r of (Inl e, w2) \<Rightarrow> (Inl e, w2)
                 | (Inr u, w2) \<Rightarrow> (Inr (), console_log m w2))) = notifications (snd r)"
  by (cases r; cases "fst r"; simp add: console_log_fields)+

lemma catch_and_log_fields:
  "commits (snd (catch_and_log label r)) = commits (snd r)"
  "notifications (snd (catch_and_log label r)) = notifications (snd r)"
  by (cases r; cases "fst r"; simp add: catch_and_log_def console_error_fields)+

lemma catch_and_log_fst: "fst (catch_and_log label r) = Inr ()"
  by (cases r) (auto simp: catch_and_log_def split: sum.splits)



section \<open>Lemmas on the handlers\<close>

text \<open>
  What a run of each handler leaves in \<open>commits\<close> and in \<open>notifications\<close> when the
  reads and \<^verbatim>\<open>batch.set\<close> work: one batch with every write, appended to the collection
  when the store accepts the commit.
\<close>

lemma onEventCreated_fields:
  assumes "get_error env = None" and "set_error env = None"
  shows "commits (snd (onEventCreated env w ev eid))
           = commits w @ [map (created_notification (title ev) eid) (created_recipients w ev)]"
    and "notifications (snd (onEventCreated env w ev eid))
           = (if commit_error env = None \<and> length (created_recipients w ev) \<le> batch_limit env
              then notifications w @ map (created_notification (title ev) eid)
                                        (created_recipients w ev)
              else notifications w)"
  using assms
  by (simp_all add: onEventCreated_def onEventCreated_try_def getTargetAudience_def
        created_loop_ok created_recipients_def Let_def console_log_fields catch_and_log_fields
        after_commit_fields batch_commit_fields)

lemma onEventUpdated_unfold:
  "onEventUpdated env w b a eid =
     catch_and_log ''Error in onEventUpdated:''
       (onEventUpdated_try env w (fst (snapshot_data b 0)) (fst (snapshot_data a (Suc 0))) eid)"
  by (simp add: onEventUpdated_def snapshot_data_def)

lemma snapshot_data_fields:
  "title (fst (snapshot_data d h)) = title d"
  "registrations (fst (snapshot_data d h)) = registrations d"
  by (simp_all add: snapshot_data_def)

text \<open>
  The two snapshots of a change never hold the same \<^verbatim>\<open>Timestamp\<close> object, so the
  comparison of the dates makes every update count as a change of a critical field.
\<close>

lemma snapshots_differ:
  "criticalFieldsChanged (fst (snapshot_data b 0)) (fst (snapshot_data a (Suc 0)))"
  by (simp add: criticalFieldsChanged_def strict_neq_object_def snapshot_data_def)

lemma onEventUpdated_fields:
  assumes "set_error env = None"
  shows "commits (snd (onEventUpdated env w b a eid))
           = (if or_empty (registrations a) = [] then commits w
              else commits w @ [map (updated_notification (title a) eid)
                                   (or_empty (registrations a))])"
    and "notifications (snd (onEventUpdated env w b a eid))
           = (if commit_error env = None \<and> length (or_empty (registrations a)) \<le> batch_limit env
              then notifications w @ map (updated_notification (title a) eid)
                                        (or_empty (registrations a))
              else notifications w)"
  using assms
  by (simp_all add: onEventUpdated_unfold onEventUpdated_try_def snapshots_differ
        snapshot_data_fields registrations_loop_ok Let_def console_log_fields
        catch_and_log_fields after_commit_fields batch_commit_fields)

lemma onEventDeleted_fields:
  assumes "set_error env = None"
  shows "commits (snd (onEventDeleted env w ev eid))
           = (if or_empty (registrations ev) = [] then commits w
              else commits w @ [map (cancelled_notification (title ev))
                                   (or_empty (registrations ev))])"
    and "notifications (snd (onEventDeleted env w ev eid))
           = (if commit_error env = None \<and> length (or_empty (registrations ev)) \<le> batch_limit env
              then notifications w @ map (cancelled_notification (title ev))
                                        (or_empty (registrations ev))
              else notifications w)"
  using assms
  by (simp_all add: onEventDeleted_def onEventDeleted_try_def registrations_loop_ok Let_def
        console_log_fields catch_and_log_fields after_commit_fields batch_commit_fields)

lemma fromMillis_next_day: "fromMillis (now + 24 * 60 * 60 * 1000) = plus_24h (fromMillis now)"
proof -
  have day: "now + 24 * 60 * 60 * 1000 = now + 1000 * 86400" by simp
  have "(now + 1000 * 86400) div 1000 = now div 1000 + 86400"
    by (simp only: div_mult_self2)
  moreover have "(now + 1000 * 86400) mod 1000 = now mod 1000"
    by (simp only: mod_mult_self2)
  ultimately show ?thesis
    by (simp only: day fromMillis_def plus_24h_def) simp
qed

lemma in_next_24h_window: "in_next_24h now = in_window now now"
  by (rule ext) (simp add: in_next_24h_def in_window_def)

lemma events_between_window:
  "events_between (fromMillis clock1) (fromMillis (clock2 + 86400000)) w
     = order_by_date (filter (in_window clock1 clock2) (events w))"
proof -
  have "fromMillis (clock2 + 86400000) = plus_24h (fromMillis clock2)"
    using fromMillis_next_day [of clock2] by simp
  then have "(\<lambda>(doc_id, event). ts_le (fromMillis clock1) (date event) \<and>
            ts_le (date event) (fromMillis (clock2 + 86400000))) = in_window clock1 clock2"
    by (intro ext) (simp add: in_window_def split_beta)
  then show ?thesis
    by (simp only: events_between_def)
qed

text \<open>
  The ordered documents are the same documents, by ascending date and id; ordering
  changes neither which reminders are due nor how many.
\<close>

lemma mset_order_by_date: "mset (order_by_date docs) = mset docs"
  by (simp add: order_by_date_def)

lemma sorted_order_by_date: "sorted (map date_key (order_by_date docs))"
  by (simp add: order_by_date_def)

lemma mset_reminders_of: "mset (reminders_of docs) = (\<Sum>d\<in>#mset docs. mset (reminders_of [d]))"
  by (induction docs) (simp_all add: reminders_of_def)

lemma reminders_of_order_by_date:
  "mset (reminders_of (order_by_date docs)) = mset (reminders_of docs)"
  by (simp add: mset_reminders_of [of "order_by_date docs"] mset_reminders_of [of docs]
        mset_order_by_date)

lemma length_reminders_of_order_by_date:
  "length (reminders_of (order_by_date docs)) = length (reminders_of docs)"
  using reminders_of_order_by_date [of docs] by (metis size_mset)

lemma reminders_of_order_by_date_empty:
  "reminders_of (order_by_date docs) = [] \<longleftrightarrow> reminders_of docs = []"
  using length_reminders_of_order_by_date [of docs] by (metis length_0_conv)

lemma order_by_date_empty: "order_by_date docs = [] \<longleftrightarrow> docs = []"
  using mset_order_by_date [of docs] by (metis mset_zero_iff)

lemma sendEventReminders_try_ok:
  assumes "get_error env = None" and "set_error env = None"
  shows "sendEventReminders_try env w clock1 clock2 =
     (let w1 = console_log ''Running scheduled event reminders'' w;
          docs = events_between (fromMillis clock1) (fromMillis (clock2 + 24 * 60 * 60 * 1000)) w
      in if docs = [] then (Inr (), console_log ''No events in the next 24 hours'' w1)
         else if reminders_of docs = [] then (Inr (), w1)
         else (case batch_commit env (reminders_of docs) w1 of
                 (Inl e, w2) \<Rightarrow> (Inl e, w2)
               | (Inr u, w2) \<Rightarrow>
                   (Inr (), console_log (''Sent '' @ decimal (length (reminders_of docs))
                                           @ '' event reminders'') w2)))"
  using assms
  by (simp add: sendEventReminders_try_def Let_def reminder_outer_ok events_between_def
        console_log_def)

lemma sendEventReminders_fields:
  assumes "get_error env = None" and "set_error env = None"
  shows "commits (snd (sendEventReminders env w clock1 clock2))
           = (if reminders_of (filter (in_window clock1 clock2) (events w)) = [] then commits w
              else commits w @
                   [reminders_of (order_by_date (filter (in_window clock1 clock2) (events w)))])"
    and "notifications (snd (sendEventReminders env w clock1 clock2))
           = (if commit_error env = None \<and>
                 length (reminders_of (filter (in_window clock1 clock2) (events w)))
                   \<le> batch_limit env
              then notifications w @
                   reminders_of (order_by_date (filter (in_window clock1 clock2) (events w)))
              else notifications w)"
proof -
  have empty: "reminders_of [] = []" by (simp add: reminders_of_def)
  show "commits (snd (sendEventReminders env w clock1 clock2))
           = (if reminders_of (filter (in_window clock1 clock2) (events w)) = [] then commits w
              else commits w @
                   [reminders_of (order_by_date (filter (in_window clock1 clock2) (events w)))])"
    by (simp add: sendEventReminders_def sendEventReminders_try_ok [OF assms] Let_def
          events_between_window console_log_fields catch_and_log_fields after_commit_fields
          batch_commit_fields empty reminders_of_order_by_date_empty
          length_reminders_of_order_by_date order_by_date_empty)
  show "notifications (snd (sendEventReminders env w clock1 clock2))
           = (if commit_error env = None \<and>
                 length (reminders_of (filter (in_window clock1 clock2) (events w)))
                   \<le> batch_limit env
              then notifications w @
                   reminders_of (order_by_date (filter (in_window clock1 clock2) (events w)))
              else notifications w)"
    by (simp add: sendEventReminders_def sendEventReminders_try_ok [OF assms] Let_def
          events_between_window console_log_fields catch_and_log_fields after_commit_fields
          batch_commit_fields empty reminders_of_order_by_date_empty
          length_reminders_of_order_by_date order_by_date_empty)
qed

text \<open>
  Whatever the services do, a run adds to \<open>notifications\<close> either nothing or the whole
  batch of the handler.
\<close>

lemma onEventCreated_written:
  "notifications (snd (onEventCreated env w ev eid)) = notifications w \<or>
   notifications (snd (onEventCreated env w ev eid)) =
     notifications w @ map (created_notification (title ev) eid) (created_recipients w ev)"
  by (auto simp: onEventCreated_def onEventCreated_try_def catch_and_log_def batch_commit_cases
        console_log_def console_error_def getTargetAudience_def created_recipients_def Let_def
      split: sum.splits option.splits dest!: created_loop_Inr)

lemma onEventUpdated_written:
  "notifications (snd (onEventUpdated env w b a eid)) = notifications w \<or>
   notifications (snd (onEventUpdated env w b a eid)) =
     notifications w @ map (updated_notification (title a) eid) (or_empty (registrations a))"
  by (auto simp: onEventUpdated_def onEventUpdated_try_def catch_and_log_def batch_commit_cases
        console_log_def console_error_def snapshot_data_def Let_def
      split: sum.splits option.splits dest!: registrations_loop_Inr)

lemma onEventDeleted_written:
  "notifications (snd (onEventDeleted env w ev eid)) = notifications w \<or>
   notifications (snd (onEventDeleted env w ev eid)) =
     notifications w @ map (cancelled_notification (title ev)) (or_empty (registrations ev))"
  by (auto simp: onEventDeleted_def onEventDeleted_try_def catch_and_log_def batch_commit_cases
        console_log_def console_error_def Let_def
      split: sum.splits option.splits dest!: registrations_loop_Inr)





lemmas handler_defs =
  onEventCreated_def onEventCreated_try_def onEventUpdated_def onEventUpdated_try_def
  onEventDeleted_def onEventDeleted_try_def catch_and_log_def batch_commit_def batch_set_def
  console_log_def console_error_def getTargetAudience_def audience_query_def snapshot_user_def
  snapshot_data_def criticalFieldsChanged_def strict_neq_object_def or_empty_def
  created_notification_def updated_notification_def cancelled_notification_def truthy_def

lemmas data_defs =
  env_ok_def campus_def alice_def bob_def carol_def dave_def erin_def
  reg_alice_def reg_bob_def reg_carol_def fair_def study_group_def


lemma in_town_window: "filter (in_next_24h 1699956800000) (events town) = [(''e1'', fair)]"
  by (simp add: in_next_24h_def ts_le_def fromMillis_def plus_24h_def town_def fair_def
        study_group_def past_talk_def)

lemma out_of_town_window: "filter (in_next_24h 1600000000000) (events town) = []"
  by (simp add: in_next_24h_def ts_le_def fromMillis_def plus_24h_def town_def fair_def
        study_group_def past_talk_def)


section \<open>The recipient sets of the lifecycle handlers\<close>

lemma getTargetAudience_Inr:
  "getTargetAudience env w inst ta = Inr us \<Longrightarrow>
   get_error env = None \<and> us = map snapshot_user (filter (audience_query inst ta) (users w))"
  by (auto simp: getTargetAudience_def split: option.splits)

lemma created_recipients_of_audience:
  "getTargetAudience env w (institution ev) (targetAudience ev) = Inr us \<Longrightarrow>
   created_recipients w ev = filter (\<lambda>u. uid u \<noteq> creatorId ev) us"
  by (auto simp: created_recipients_def dest!: getTargetAudience_Inr)

lemma userId_created: "map userId (map (created_notification t eid) us) = map uid us"
  by (simp add: created_notification_def comp_def)

lemma userId_updated: "map userId (map (updated_notification t eid) rs) = map studentId rs"
  by (simp add: updated_notification_def comp_def)

lemma userId_cancelled: "map userId (map (cancelled_notification t) rs) = map studentId rs"
  by (simp add: cancelled_notification_def comp_def)

text \<open>
  Claim C1 does not hold as stated for the update and delete branches: they write one
  record per registration entry and never look at the creator. Carol has created the
  fair and stands on its registration list; changing the location, or deleting the
  event, writes a record for her.
\<close>

theorem creator_on_registration_list_counterexample:
  "creatorId fair = ''carol'' \<and>
   map userId (notifications (snd (onEventUpdated env_ok campus fair
                                     (fair\<lparr>location := ''Hall B''\<rparr>) ''e1'')))
     = [''carol'', ''alice''] \<and>
   map userId (notifications (snd (onEventDeleted env_ok campus fair ''e1'')))
     = [''carol'', ''alice'']"
  by (simp add: handler_defs data_defs)

text \<open>
  Claim C1, amended. The records a run adds to the notifications are these. On create,
  none has the \<open>userId\<close> of the event's creator, whatever the services do; and when
  \<^verbatim>\<open>batch.set\<close> works and the store accepts the commit, the \<open>userId\<close>s written are
  those of the resolved audience, in order, with the creator taken out. On update and
  on delete, each record has the \<open>studentId\<close> of a registration entry of the event,
  whatever the services do; and when \<^verbatim>\<open>batch.set\<close> works and the store accepts the
  commit, one record is written per registration entry, in order (for an update that
  changes title, date or location), so a creator who stands on the registration list
  gets a record like every other registrant.
\<close>

theorem creator_skipped_on_create_registrants_on_update_delete:
  "(\<exists>ws. notifications (snd (onEventCreated env w ev eid)) = notifications w @ ws \<and>
         (\<forall>n \<in> set ws. userId n \<noteq> creatorId ev)) \<and>
   (\<exists>ws. notifications (snd (onEventUpdated env w b a eid)) = notifications w @ ws \<and>
         (\<forall>n \<in> set ws. userId n \<in> studentId ` set (or_empty (registrations a)))) \<and>
   (\<exists>ws. notifications (snd (onEventDeleted env w ev eid)) = notifications w @ ws \<and>
         (\<forall>n \<in> set ws. userId n \<in> studentId ` set (or_empty (registrations ev)))) \<and>
   (set_error env = None \<and> commit_error env = None \<longrightarrow>
      (getTargetAudience env w (institution ev) (targetAudience ev) = Inr us \<and>
       length (filter (\<lambda>u. uid u \<noteq> creatorId ev) us) \<le> batch_limit env \<longrightarrow>
         (\<exists>ws. notifications (snd (onEventCreated env w ev eid)) = notifications w @ ws \<and>
               map userId ws = filter (\<lambda>i. i \<noteq> creatorId ev) (map uid us))) \<and>
      (length (or_empty (registrations a)) \<le> batch_limit env \<and>
       (title b \<noteq> title a \<or> date b \<noteq> date a \<or> location b \<noteq> location a) \<longrightarrow>
         (\<exists>ws. notifications (snd (onEventUpdated env w b a eid)) = notifications w @ ws \<and>
               map userId ws = map studentId (or_empty (registrations a)))) \<and>
      (length (or_empty (registrations ev)) \<le> batch_limit env \<longrightarrow>
         (\<exists>ws. notifications (snd (onEventDeleted env w ev eid)) = notifications w @ ws \<and>
               map userId ws = map studentId (or_empty (registrations ev)))))"
proof (intro conjI)
  show "\<exists>ws. notifications (snd (onEventCreated env w ev eid)) = notifications w @ ws \<and>
         (\<forall>n \<in> set ws. userId n \<noteq> creatorId ev)"
    using onEventCreated_written [of env w ev eid]
  proof
    assume "notifications (snd (onEventCreated env w ev eid)) = notifications w"
    then show ?thesis by (intro exI [of _ "[]"]) simp
  next
    assume "notifications (snd (onEventCreated env w ev eid)) =
      notifications w @ map (created_notification (title ev) eid) (created_recipients w ev)"
    then show ?thesis
      by (intro exI [of _ "map (created_notification (title ev) eid) (created_recipients w ev)"])
         (auto simp: created_recipients_def created_notification_def)
  qed
  show "\<exists>ws. notifications (snd (onEventUpdated env w b a eid)) = notifications w @ ws \<and>
         (\<forall>n \<in> set ws. userId n \<in> studentId ` set (or_empty (registrations a)))"
    using onEventUpdated_written [of env w b a eid]
  proof
    assume "notifications (snd (onEventUpdated env w b a eid)) = notifications w"
    then show ?thesis by (intro exI [of _ "[]"]) simp
  next
    assume "notifications (snd (onEventUpdated env w b a eid)) =
      notifications w @ map (updated_notification (title a) eid) (or_empty (registrations a))"
    then show ?thesis
      by (intro exI [of _ "map (updated_notification (title a) eid) (or_empty (registrations a))"])
         (auto simp: updated_notification_def)
  qed
  show "\<exists>ws. notifications (snd (onEventDeleted env w ev eid)) = notifications w @ ws \<and>
         (\<forall>n \<in> set ws. userId n \<in> studentId ` set (or_empty (registrations ev)))"
    using onEventDeleted_written [of env w ev eid]
  proof
    assume "notifications (snd (onEventDeleted env w ev eid)) = notifications w"
    then show ?thesis by (intro exI [of _ "[]"]) simp
  next
    assume "notifications (snd (onEventDeleted env w ev eid)) =
      notifications w @ map (cancelled_notification (title ev)) (or_empty (registrations ev))"
    then show ?thesis
      by (intro exI [of _ "map (cancelled_notification (title ev)) (or_empty (registrations ev))"])
         (auto simp: cancelled_notification_def)
  qed
  show "set_error env = None \<and> commit_error env = None \<longrightarrow>
      (getTargetAudience env w (institution ev) (targetAudience ev) = Inr us \<and>
       length (filter (\<lambda>u. uid u \<noteq> creatorId ev) us) \<le> batch_limit env \<longrightarrow>
         (\<exists>ws. notifications (snd (onEventCreated env w ev eid)) = notifications w @ ws \<and>
               map userId ws = filter (\<lambda>i. i \<noteq> creatorId ev) (map uid us))) \<and>
      (length (or_empty (registrations a)) \<le> batch_limit env \<and>
       (title b \<noteq> title a \<or> date b \<noteq> date a \<or> location b \<noteq> location a) \<longrightarrow>
         (\<exists>ws. notifications (snd (onEventUpdated env w b a eid)) = notifications w @ ws \<and>
               map userId ws = map studentId (or_empty (registrations a)))) \<and>
      (length (or_empty (registrations ev)) \<le> batch_limit env \<longrightarrow>
         (\<exists>ws. notifications (snd (onEventDeleted env w ev eid)) = notifications w @ ws \<and>
               map userId ws = map studentId (or_empty (registrations ev))))"
  proof (intro impI conjI)
    assume ok: "set_error env = None \<and> commit_error env = None"
    then have set: "set_error env = None" and commit: "commit_error env = None" by simp_all
    {
      assume aud: "getTargetAudience env w (institution ev) (targetAudience ev) = Inr us \<and>
        length (filter (\<lambda>u. uid u \<noteq> creatorId ev) us) \<le> batch_limit env"
      then have get: "get_error env = None"
        using getTargetAudience_Inr by blast
      have recipients: "created_recipients w ev = filter (\<lambda>u. uid u \<noteq> creatorId ev) us"
        using aud created_recipients_of_audience by blast
      have "notifications (snd (onEventCreated env w ev eid)) =
              notifications w @ map (created_notification (title ev) eid)
                                    (filter (\<lambda>u. uid u \<noteq> creatorId ev) us)"
        using aud commit by (simp add: onEventCreated_fields [OF get set] recipients)
      moreover have "map userId (map (created_notification (title ev) eid)
                                     (filter (\<lambda>u. uid u \<noteq> creatorId ev) us))
                       = filter (\<lambda>i. i \<noteq> creatorId ev) (map uid us)"
        by (simp only: userId_created) (simp add: filter_map comp_def)
      ultimately show "\<exists>ws. notifications (snd (onEventCreated env w ev eid))
                              = notifications w @ ws \<and>
                            map userId ws = filter (\<lambda>i. i \<noteq> creatorId ev) (map uid us)"
        by blast
    }
    {
      assume fits: "length (or_empty (registrations a)) \<le> batch_limit env \<and>
        (title b \<noteq> title a \<or> date b \<noteq> date a \<or> location b \<noteq> location a)"
      then have "notifications (snd (onEventUpdated env w b a eid)) =
              notifications w @ map (updated_notification (title a) eid)
                                    (or_empty (registrations a))"
        using commit by (simp add: onEventUpdated_fields [OF set])
      then show "\<exists>ws. notifications (snd (onEventUpdated env w b a eid))
                       = notifications w @ ws \<and>
                     map userId ws = map studentId (or_empty (registrations a))"
        using userId_updated by blast
    }
    {
      assume fits: "length (or_empty (registrations ev)) \<le> batch_limit env"
      then have "notifications (snd (onEventDeleted env w ev eid)) =
              notifications w @ map (cancelled_notification (title ev))
                                    (or_empty (registrations ev))"
        using commit by (simp add: onEventDeleted_fields [OF set])
      then show "\<exists>ws. notifications (snd (onEventDeleted env w ev eid))
                       = notifications w @ ws \<and>
                     map userId ws = map studentId (or_empty (registrations ev))"
        using userId_cancelled by blast
    }
  qed
qed

text \<open>
  Alice, a student, has created the study group: she and Bob are its audience, and the
  one record written on create is Bob's. The fair has two registrants, its creator
  Carol and Alice: both get a record on update and on delete.
\<close>

theorem creator_skipped_on_create_registrants_on_update_delete_witness:
  "set_error env_ok = None \<and> commit_error env_ok = None \<and>
   creatorId study_group = ''alice'' \<and>
   getTargetAudience env_ok campus (institution study_group) (targetAudience study_group)
     = Inr [\<lparr>uid = ''alice'', user_data = alice\<rparr>, \<lparr>uid = ''bob'', user_data = bob\<rparr>] \<and>
   map userId (notifications (snd (onEventCreated env_ok campus study_group ''e2''))) = [''bob''] \<and>
   creatorId fair = ''carol'' \<and>
   map studentId (or_empty (registrations fair)) = [''carol'', ''alice''] \<and>
   location fair \<noteq> location (fair\<lparr>location := ''Hall B''\<rparr>) \<and>
   map userId (notifications (snd (onEventUpdated env_ok campus fair
                                     (fair\<lparr>location := ''Hall B''\<rparr>) ''e1'')))
     = [''carol'', ''alice''] \<and>
   map userId (notifications (snd (onEventDeleted env_ok campus fair ''e1'')))
     = [''carol'', ''alice'']"
proof -
  have ok: "set_error env_ok = None \<and> commit_error env_ok = None"
    by (simp add: env_ok_def)
  have aud: "getTargetAudience env_ok campus (institution study_group) (targetAudience study_group)
               = Inr [\<lparr>uid = ''alice'', user_data = alice\<rparr>, \<lparr>uid = ''bob'', user_data = bob\<rparr>]"
    by (simp add: getTargetAudience_def audience_query_def truthy_def snapshot_user_def
          data_defs)
  have regs: "map studentId (or_empty (registrations fair)) = [''carol'', ''alice'']"
    "or_empty (registrations (fair\<lparr>location := ''Hall B''\<rparr>)) = or_empty (registrations fair)"
    "length (or_empty (registrations fair)) = 2"
    by (simp_all add: or_empty_def fair_def reg_carol_def reg_alice_def)
  have facts: "creatorId study_group = ''alice''" "creatorId fair = ''carol''"
    "location fair \<noteq> ''Hall B''" "batch_limit env_ok = 500" "notifications campus = []"
    by (simp_all add: study_group_def fair_def env_ok_def campus_def)
  show ?thesis
    using creator_skipped_on_create_registrants_on_update_delete
            [of env_ok campus study_group "''e2''" fair "fair\<lparr>location := ''Hall B''\<rparr>"
                "[\<lparr>uid = ''alice'', user_data = alice\<rparr>, \<lparr>uid = ''bob'', user_data = bob\<rparr>]"]
          creator_skipped_on_create_registrants_on_update_delete
            [of env_ok campus fair "''e1''" fair "fair\<lparr>location := ''Hall B''\<rparr>" "[]"]
    by (simp add: ok aud regs facts)
qed

section \<open>Change significance\<close>

text \<open>
  Claim C2 is what the comment of the code announces (\<^verbatim>\<open>Check if critical fields
  changed\<close>), and the handler does not do it: by \<open>snapshots_differ\<close> the comparison
  \<^verbatim>\<open>before.date !== after.date\<close> holds for every pair of snapshots. Here the update
  changes the description only; title, date and location are the same, and the one
  registrant is notified all the same.
\<close>

theorem description_only_update_notifies:
  "title (study_group\<lparr>description := ''Bring your notes''\<rparr>) = title study_group \<and>
   date (study_group\<lparr>description := ''Bring your notes''\<rparr>) = date study_group \<and>
   location (study_group\<lparr>description := ''Bring your notes''\<rparr>) = location study_group \<and>
   map (\<lambda>n. (userId n, ntype n))
       (notifications (snd (onEventUpdated env_ok campus study_group
                              (study_group\<lparr>description := ''Bring your notes''\<rparr>) ''e2'')))
     = [(''bob'', EVENT_UPDATED)]"
  by (simp add: handler_defs data_defs)

section \<open>Audience resolution\<close>

lemma audience_query_iff:
  "audience_query inst ta u \<longleftrightarrow>
     user_institution u = inst \<and> role u = STUDENT \<and>
     (aud_type ta = DEPARTMENT \<and> truthy (aud_value ta) \<longrightarrow> department u = aud_value ta) \<and>
     (aud_type ta = CLASS \<and> truthy (aud_value ta) \<longrightarrow> classOf u = aud_value ta)"
  by (auto simp: audience_query_def Let_def)

text \<open>
  Claim C3 does not hold as stated for a descriptor of type department whose value is
  the empty string: the code then applies no department filter and returns every
  student of the institution, while no student has the department \<^verbatim>\<open>''\<close>.
\<close>

theorem department_with_empty_value_counterexample:
  "getTargetAudience env_ok campus ''State University''
       \<lparr>aud_type = DEPARTMENT, aud_value = Some ''''\<rparr>
     = Inr [\<lparr>uid = ''alice'', user_data = alice\<rparr>, \<lparr>uid = ''bob'', user_data = bob\<rparr>] \<and>
   filter (\<lambda>u. role u = STUDENT \<and> user_institution u = ''State University'' \<and>
               department u = Some '''') (users campus) = []"
  by (simp add: getTargetAudience_def audience_query_def truthy_simps snapshot_user_def
        env_ok_def campus_def alice_def bob_def carol_def dave_def erin_def)

text \<open>
  Claim C3, amended. When the read works, audience resolution returns one user per
  document of the \<^verbatim>\<open>users\<close> collection that has role student and the given
  institution and, when the descriptor has type department and a non-empty value, that
  department, and when it has type class and a non-empty value, that class; it returns
  them in the store's order, each with the data of its document and with the \<open>uid\<close>
  field of the data, or else the document id, as \<open>uid\<close>. No user of another role or
  another institution is ever returned.
\<close>

theorem getTargetAudience_exact:
  assumes "get_error env = None"
  shows "\<exists>us. getTargetAudience env w inst ta = Inr us \<and>
           map user_data us =
             filter (\<lambda>u. role u = STUDENT \<and> user_institution u = inst \<and>
                         (aud_type ta = DEPARTMENT \<and> truthy (aud_value ta)
                            \<longrightarrow> department u = aud_value ta) \<and>
                         (aud_type ta = CLASS \<and> truthy (aud_value ta)
                            \<longrightarrow> classOf u = aud_value ta))
                    (users w) \<and>
           map uid us =
             map (\<lambda>d. case uid_field d of Some u \<Rightarrow> u | None \<Rightarrow> user_doc_id d)
                 (map user_data us) \<and>
           (\<forall>u \<in> set us. role (user_data u) = STUDENT \<and> user_institution (user_data u) = inst)"
proof -
  have query: "audience_query inst ta =
          (\<lambda>u. role u = STUDENT \<and> user_institution u = inst \<and>
               (aud_type ta = DEPARTMENT \<and> truthy (aud_value ta) \<longrightarrow> department u = aud_value ta) \<and>
               (aud_type ta = CLASS \<and> truthy (aud_value ta) \<longrightarrow> classOf u = aud_value ta))"
    by (rule ext) (auto simp: audience_query_iff)
  have result: "getTargetAudience env w inst ta =
      Inr (map snapshot_user (filter (audience_query inst ta) (users w)))"
    using assms by (simp add: getTargetAudience_def)
  have students: "\<forall>u \<in> set (map snapshot_user (filter (audience_query inst ta) (users w))).
      role (user_data u) = STUDENT \<and> user_institution (user_data u) = inst"
    by (auto simp: snapshot_user_def audience_query_iff)
  show ?thesis
    using result students
    by (intro exI [of _ "map snapshot_user (filter (audience_query inst ta) (users w))"])
       (simp add: query snapshot_user_def comp_def)
qed

theorem getTargetAudience_exact_witness:
  "get_error env_ok = None \<and>
   getTargetAudience env_ok campus ''State University''
       \<lparr>aud_type = DEPARTMENT, aud_value = Some ''Computer Science''\<rparr>
     = Inr [\<lparr>uid = ''alice'', user_data = alice\<rparr>] \<and>
   getTargetAudience env_ok campus ''State University''
       \<lparr>aud_type = CLASS, aud_value = Some ''CS101''\<rparr>
     = Inr [\<lparr>uid = ''alice'', user_data = alice\<rparr>] \<and>
   getTargetAudience env_ok campus ''State University''
       \<lparr>aud_type = GENERAL, aud_value = None\<rparr>
     = Inr [\<lparr>uid = ''alice'', user_data = alice\<rparr>, \<lparr>uid = ''bob'', user_data = bob\<rparr>] \<and>
   role alice = STUDENT \<and> role bob = STUDENT \<and> role carol = LECTURER \<and> role erin = ADMIN \<and>
   user_institution dave = ''Other College''"
proof -
  have ok: "get_error env_ok = None" by (simp add: env_ok_def)
  show ?thesis
    using ok
      getTargetAudience_exact [OF ok, of campus "''State University''"
        "\<lparr>aud_type = DEPARTMENT, aud_value = Some ''Computer Science''\<rparr>"]
      getTargetAudience_exact [OF ok, of campus "''State University''"
        "\<lparr>aud_type = CLASS, aud_value = Some ''CS101''\<rparr>"]
      getTargetAudience_exact [OF ok, of campus "''State University''"
        "\<lparr>aud_type = GENERAL, aud_value = None\<rparr>"]
    by (simp add: getTargetAudience_def audience_query_def snapshot_user_def campus_def
          alice_def bob_def carol_def dave_def erin_def truthy_simps)
qed

section \<open>One batch, one commit\<close>




section \<open>The fields of a cancellation\<close>

text \<open>
  Claim C5 does not hold for the delete branch: the object literal it hands to the
  store names both fields and gives them the value \<^verbatim>\<open>null\<close>, so the record has an
  \<open>eventId\<close> and a \<open>link\<close>, each \<^verbatim>\<open>null\<close>; they are not absent.
\<close>

theorem cancellation_fields_present_counterexample:
  "map eventId (notifications (snd (onEventDeleted env_ok campus study_group ''e2''))) = [Null] \<and>
   map link (notifications (snd (onEventDeleted env_ok campus study_group ''e2''))) = [Null] \<and>
   (Null :: string field) \<noteq> Absent"
  by (simp add: handler_defs data_defs)

text \<open>
  Claim C5, amended. Every record the delete branch writes has the fields \<open>eventId\<close> and
  \<open>link\<close> present with the value \<^verbatim>\<open>null\<close>; every record the create and update
  branches write carries the event id and the deep link \<^verbatim>\<open>/events/<id>\<close>.
\<close>

theorem cancellation_fields_are_null:
  "(\<exists>ws. notifications (snd (onEventDeleted env w ev eid)) = notifications w @ ws \<and>
         (\<forall>n \<in> set ws. eventId n = Null \<and> link n = Null)) \<and>
   (\<exists>ws. notifications (snd (onEventCreated env w ev eid)) = notifications w @ ws \<and>
         (\<forall>n \<in> set ws. eventId n = Val eid \<and> link n = Val (''/events/'' @ eid))) \<and>
   (\<exists>ws. notifications (snd (onEventUpdated env w b a eid)) = notifications w @ ws \<and>
         (\<forall>n \<in> set ws. eventId n = Val eid \<and> link n = Val (''/events/'' @ eid)))"
proof (intro conjI)
  show "\<exists>ws. notifications (snd (onEventDeleted env w ev eid)) = notifications w @ ws \<and>
         (\<forall>n \<in> set ws. eventId n = Null \<and> link n = Null)"
    using onEventDeleted_written [of env w ev eid]
  proof
    assume "notifications (snd (onEventDeleted env w ev eid)) = notifications w"
    then show ?thesis by (intro exI [of _ "[]"]) simp
  next
    assume "notifications (snd (onEventDeleted env w ev eid)) =
      notifications w @ map (cancelled_notification (title ev)) (or_empty (registrations ev))"
    then show ?thesis
      by (intro exI [of _ "map (cancelled_notification (title ev)) (or_empty (registrations ev))"])
         (auto simp: cancelled_notification_def)
  qed
  show "\<exists>ws. notifications (snd (onEventCreated env w ev eid)) = notifications w @ ws \<and>
         (\<forall>n \<in> set ws. eventId n = Val eid \<and> link n = Val (''/events/'' @ eid))"
    using onEventCreated_written [of env w ev eid]
  proof
    assume "notifications (snd (onEventCreated env w ev eid)) = notifications w"
    then show ?thesis by (intro exI [of _ "[]"]) simp
  next
    assume "notifications (snd (onEventCreated env w ev eid)) =
      notifications w @ map (created_notification (title ev) eid) (created_recipients w ev)"
    then show ?thesis
      by (intro exI [of _ "map (created_notification (title ev) eid) (created_recipients w ev)"])
         (auto simp: created_notification_def)
  qed
  show "\<exists>ws. notifications (snd (onEventUpdated env w b a eid)) = notifications w @ ws \<and>
         (\<forall>n \<in> set ws. eventId n = Val eid \<and> link n = Val (''/events/'' @ eid))"
    using onEventUpdated_written [of env w b a eid]
  proof
    assume "notifications (snd (onEventUpdated env w b a eid)) = notifications w"
    then show ?thesis by (intro exI [of _ "[]"]) simp
  next
    assume "notifications (snd (onEventUpdated env w b a eid)) =
      notifications w @ map (updated_notification (title a) eid) (or_empty (registrations a))"
    then show ?thesis
      by (intro exI [of _ "map (updated_notification (title a) eid) (or_empty (registrations a))"])
         (auto simp: updated_notification_def)
  qed
qed

theorem cancellation_fields_are_null_witness:
  "map (\<lambda>n. (userId n, eventId n, link n))
       (notifications (snd (onEventDeleted env_ok campus study_group ''e2'')))
     = [(''bob'', Null, Null)] \<and>
   map (\<lambda>n. (userId n, eventId n, link n))
       (notifications (snd (onEventCreated env_ok campus study_group ''e2'')))
     = [(''bob'', Val ''e2'', Val ''/events/e2'')] \<and>
   map (\<lambda>n. (userId n, eventId n, link n))
       (notifications (snd (onEventUpdated env_ok campus study_group
                              (study_group\<lparr>title := ''Study circle''\<rparr>) ''e2'')))
     = [(''bob'', Val ''e2'', Val ''/events/e2'')]"
  using cancellation_fields_are_null [of env_ok campus study_group "''e2''" study_group
          "study_group\<lparr>title := ''Study circle''\<rparr>"]
  by (simp add: handler_defs data_defs)

section \<open>The error codes of deleteUser\<close>

text \<open>
  The only codes the callable throws are \<^verbatim>\<open>unauthenticated\<close> and \<^verbatim>\<open>internal\<close>: the
  \<^verbatim>\<open>permission-denied\<close> and \<^verbatim>\<open>invalid-argument\<close> errors are thrown inside the
  \<^verbatim>\<open>try\<close> block, and its \<^verbatim>\<open>catch\<close> wraps whatever it catches in an
  \<^verbatim>\<open>internal\<close> error with the same message.
\<close>

lemma deleteUser_error_codes:
  "fst (deleteUser env w data_userId context_auth) = Inl e \<Longrightarrow>
   (\<exists>m. e = HttpsError Unauthenticated m) \<or> (\<exists>m. e = HttpsError Internal m)"
  by (auto simp: deleteUser_def split: option.splits prod.splits sum.splits)

text \<open>
  Claim C6 is what the \<^verbatim>\<open>throw\<close> statements of the code announce, and the caller gets
  another code. A student calling, an admin deleting her own account and an admin
  deleting a user of another institution all get \<^verbatim>\<open>internal\<close>; only the missing
  caller identity is reported as the claim says.
\<close>

theorem deleteUser_reports_internal:
  "fst (deleteUser env_ok campus ''bob'' (Some ''alice''))
     = Inl (HttpsError Internal ''Only admins can delete users'') \<and>
   fst (deleteUser env_ok campus ''erin'' (Some ''erin''))
     = Inl (HttpsError Internal ''Cannot delete your own account'') \<and>
   fst (deleteUser env_ok campus ''dave'' (Some ''erin''))
     = Inl (HttpsError Internal ''Cannot delete users from other institutions'') \<and>
   fst (deleteUser env_ok campus ''bob'' None)
     = Inl (HttpsError Unauthenticated ''Must be authenticated'') \<and>
   fst (deleteUser env_ok campus ''bob'' (Some ''erin'')) = Inr True"
  by (simp add: deleteUser_def deleteUser_try_def data_defs console_log_def console_error_def)

section \<open>Duplicate registration and feedback\<close>

text \<open>
  Claim C7. For a signed-in caller and an event the store returns: when the event's
  registrations already hold the \<open>studentId\<close>, \<^verbatim>\<open>registerForEvent\<close> fails with
  \<^verbatim>\<open>ALREADY_EXISTS\<close>; when its feedback already holds the \<open>studentId\<close>,
  \<^verbatim>\<open>submitFeedback\<close> fails with \<^verbatim>\<open>ALREADY_EXISTS\<close>. In both cases the write is never
  called, whatever it would do: the state is the one before the call but for the line
  on the console, and the event documents are unchanged.
\<close>

theorem duplicate_registration_and_feedback_rejected:
  assumes "get_error env = None" and "map_of (events w) eid = Some ev"
  shows "((\<exists>r \<in> set (or_empty (registrations ev)). studentId r = studentId registration) \<longrightarrow>
            registerForEvent updateDoc env w (Some user) eid registration =
              (Inl (AppError ALREADY_EXISTS ''Already registered for this event'' 409),
               console_error ''Register for event error:''
                 (AppError ALREADY_EXISTS ''Already registered for this event'' 409) w) \<and>
            events (snd (registerForEvent updateDoc env w (Some user) eid registration))
              = events w) \<and>
         ((\<exists>f \<in> set (or_empty (feedback ev)). fb_studentId f = fb_studentId fb) \<longrightarrow>
            submitFeedback updateDoc env w (Some user) eid fb =
              (Inl (AppError ALREADY_EXISTS ''Feedback already submitted'' 409),
               console_error ''Submit feedback error:''
                 (AppError ALREADY_EXISTS ''Feedback already submitted'' 409) w) \<and>
            events (snd (submitFeedback updateDoc env w (Some user) eid fb)) = events w)"
proof -
  have some: "optional_some p xs \<longleftrightarrow> (\<exists>x \<in> set (or_empty xs). p x)"
    for p and xs :: "'a list option"
    by (cases xs) (auto simp: optional_some_def or_empty_def list_ex_iff)
  show ?thesis
    using assms
    by (simp add: registerForEvent_def registerForEvent_try_def submitFeedback_def
          submitFeedback_try_def checkAuth_def getDoc_def rethrow_app_error_def some
          console_error_def)
qed

theorem duplicate_registration_and_feedback_rejected_witness:
  "get_error env_ok = None \<and> map_of (events town) ''e3'' = Some past_talk \<and>
   registerForEvent updateDoc_wipes env_ok town (Some ''bob'') ''e3''
       \<lparr>studentId = ''bob'', studentName = ''Bob'', studentEmail = ''bob@uni.example''\<rparr>
     = (Inl (AppError ALREADY_EXISTS ''Already registered for this event'' 409),
        town\<lparr>console := [ConsoleError ''Register for event error:''
                  (AppError ALREADY_EXISTS ''Already registered for this event'' 409)]\<rparr>) \<and>
   submitFeedback updateDoc_wipes env_ok town (Some ''bob'') ''e3''
       \<lparr>fb_studentId = ''bob'', fb_studentName = ''Bob'', rating = 5, comment = ''Again''\<rparr>
     = (Inl (AppError ALREADY_EXISTS ''Feedback already submitted'' 409),
        town\<lparr>console := [ConsoleError ''Submit feedback error:''
                  (AppError ALREADY_EXISTS ''Feedback already submitted'' 409)]\<rparr>)"
proof -
  have ok: "get_error env_ok = None" by (simp add: env_ok_def)
  have ev: "map_of (events town) ''e3'' = Some past_talk" by (simp add: town_def)
  show ?thesis
    using ok ev
      duplicate_registration_and_feedback_rejected [OF ok ev, of
        "\<lparr>studentId = ''bob'', studentName = ''Bob'', studentEmail = ''bob@uni.example''\<rparr>"
        updateDoc_wipes "''bob''"
        "\<lparr>fb_studentId = ''bob'', fb_studentName = ''Bob'', rating = 5, comment = ''Again''\<rparr>"]
    by (simp add: past_talk_def reg_bob_def fb_bob_def or_empty_def console_error_def town_def
          campus_def)
qed

section \<open>The reminder sweep\<close>

lemma order_by_date_single: "order_by_date [d] = [d]"
  by (simp add: order_by_date_def)

text \<open>
  Claim C8 does not hold for every run. Twelve hours before a fair with 501
  registrants, with a store that takes at most 500 operations in a commit, the sweep
  writes no reminder at all. And when the clock moves on by a millisecond between the
  two readings of the sweep, an event dated one millisecond after \<open>now + 24h\<close>, which
  lies outside \<open>[now, now + 24h]\<close>, is reminded.
\<close>

theorem sweep_over_limit_and_late_clock_counterexample:
  "in_next_24h 1699956800000 (''e1'', full_fair 501) \<and>
   length (or_empty (registrations (full_fair 501))) = 501 \<and>
   batch_limit env_ok = 500 \<and>
   notifications (snd (sendEventReminders env_ok (campus\<lparr>events := [(''e1'', full_fair 501)]\<rparr>)
                         1699956800000 1699956800000)) = [] \<and>
   \<not> in_next_24h 1699956800000 (''e4'', late_talk) \<and>
   map (\<lambda>n. (userId n, ntype n, eventId n))
       (notifications (snd (sendEventReminders env_ok (campus\<lparr>events := [(''e4'', late_talk)]\<rparr>)
                              1699956800000 1699956800001)))
     = [(''bob'', EVENT_REMINDER, Val ''e4'')]"
proof -
  have ok: "get_error env_ok = None" "set_error env_ok = None"
    by (simp_all add: env_ok_def)
  have accepts: "commit_error env_ok = None" "batch_limit env_ok = 500"
    by (simp_all add: env_ok_def)
  have inside: "in_next_24h 1699956800000 (''e1'', full_fair 501)"
    by (simp add: in_next_24h_def ts_le_def fromMillis_def plus_24h_def full_fair_def fair_def)
  have many: "or_empty (registrations (full_fair 501)) =
      map (\<lambda>i. \<lparr>studentId = ''s'' @ decimal i, studentName = ''Student'',
                 studentEmail = ''s'' @ decimal i @ ''@uni.example'',
                 registeredAt = \<lparr>seconds = 1699000000, nanoseconds = 0\<rparr>\<rparr>) [0..<501]"
    by (simp add: full_fair_def or_empty_def)
  have count: "length (or_empty (registrations (full_fair 501))) = 501"
    by (simp only: many length_map length_upt)
  have due: "length (reminders_of [(''e1'', full_fair 501)]) = 501"
    by (simp add: reminders_of_def count)
  have full: "in_window 1699956800000 1699956800000 (''e1'', full_fair 501)"
    using inside by (simp add: in_next_24h_window)
  have unwritten: "notifications (snd (sendEventReminders env_ok
                    (campus\<lparr>events := [(''e1'', full_fair 501)]\<rparr>) 1699956800000 1699956800000)) = []"
    by (simp add: sendEventReminders_fields [OF ok] full due accepts campus_def)
  have outside: "\<not> in_next_24h 1699956800000 (''e4'', late_talk)"
    by (simp add: in_next_24h_def ts_le_def fromMillis_def plus_24h_def late_talk_def)
  have late: "in_window 1699956800000 1699956800001 (''e4'', late_talk)"
    by (simp add: in_window_def ts_le_def fromMillis_def plus_24h_def late_talk_def)
  have owed: "reminders_of [(''e4'', late_talk)] = [reminder_notification ''Late talk'' ''e4'' reg_bob]"
    by (simp add: reminders_of_def or_empty_def late_talk_def)
  have reminded: "map (\<lambda>n. (userId n, ntype n, eventId n))
       (notifications (snd (sendEventReminders env_ok (campus\<lparr>events := [(''e4'', late_talk)]\<rparr>)
                              1699956800000 1699956800001)))
     = [(''bob'', EVENT_REMINDER, Val ''e4'')]"
    by (simp add: sendEventReminders_fields [OF ok] late owed accepts order_by_date_single
          reminder_notification_def reg_bob_def campus_def)
  show ?thesis
    by (intro conjI inside count accepts(2) unwritten outside reminded)
qed

text \<open>
  Claim C8, amended. Every run of the sweep returns normally. For a run whose two
  readings of the clock are \<open>clock1\<close> and \<open>clock2\<close>, with the read and \<^verbatim>\<open>batch.set\<close>
  working, there is one batch holding exactly one \<^verbatim>\<open>event_reminder\<close> record per
  registration entry of each event dated within \<open>[clock1, clock2 + 24h]\<close> and nothing for
  any other event; the run attempts one commit, of that batch (none when the batch is
  empty), and the notifications grow by exactly that batch when the store accepts the
  commit and the batch is within the store's limit, and by nothing otherwise. If no
  event lies in the window, the run writes nothing and attempts no commit.
\<close>

theorem sendEventReminders_window:
  assumes "get_error env = None" and "set_error env = None"
  shows "fst (sendEventReminders env w clock1 clock2) = Inr () \<and>
         (\<exists>batch.
            mset batch = mset (reminders_of (filter (in_window clock1 clock2) (events w))) \<and>
            commits (snd (sendEventReminders env w clock1 clock2)) =
              (if batch = [] then commits w else commits w @ [batch]) \<and>
            notifications (snd (sendEventReminders env w clock1 clock2)) =
              (if commit_error env = None \<and> length batch \<le> batch_limit env
               then notifications w @ batch else notifications w)) \<and>
         (filter (in_window clock1 clock2) (events w) = [] \<longrightarrow>
            notifications (snd (sendEventReminders env w clock1 clock2)) = notifications w \<and>
            commits (snd (sendEventReminders env w clock1 clock2)) = commits w)"
proof -
  let ?docs = "filter (in_window clock1 clock2) (events w)"
  let ?batch = "reminders_of (order_by_date ?docs)"
  have empty: "reminders_of [] = []" by (simp add: reminders_of_def)
  have returns: "fst (sendEventReminders env w clock1 clock2) = Inr ()"
    by (simp add: sendEventReminders_def catch_and_log_fst)
  have same: "mset ?batch = mset (reminders_of ?docs)"
    by (rule reminders_of_order_by_date)
  have attempted: "commits (snd (sendEventReminders env w clock1 clock2)) =
      (if ?batch = [] then commits w else commits w @ [?batch])"
    by (simp add: sendEventReminders_fields [OF assms] reminders_of_order_by_date_empty)
  have written: "notifications (snd (sendEventReminders env w clock1 clock2)) =
      (if commit_error env = None \<and> length ?batch \<le> batch_limit env
       then notifications w @ ?batch else notifications w)"
    by (simp add: sendEventReminders_fields [OF assms] length_reminders_of_order_by_date)
  have idle: "?docs = [] \<longrightarrow>
      notifications (snd (sendEventReminders env w clock1 clock2)) = notifications w \<and>
      commits (snd (sendEventReminders env w clock1 clock2)) = commits w"
    by (simp add: sendEventReminders_fields [OF assms] empty order_by_date_def)
  from same attempted written have "\<exists>batch.
      mset batch = mset (reminders_of ?docs) \<and>
      commits (snd (sendEventReminders env w clock1 clock2)) =
        (if batch = [] then commits w else commits w @ [batch]) \<and>
      notifications (snd (sendEventReminders env w clock1 clock2)) =
        (if commit_error env = None \<and> length batch \<le> batch_limit env
         then notifications w @ batch else notifications w)"
    by blast
  with returns idle show ?thesis by blast
qed

text \<open>
  The sweep runs 12 hours before the fair, which has two registrants, and 48 hours
  before the study group: two reminders, both for the fair. With the workshop stored
  before the fair and held an hour after it, the fair's reminders come first. A run
  years earlier finds no event and writes nothing.
\<close>

theorem sendEventReminders_window_witness:
  "get_error env_ok = None \<and> set_error env_ok = None \<and>
   filter (in_window 1699956800000 1699956800000) (events town) = [(''e1'', fair)] \<and>
   map (\<lambda>n. (userId n, ntype n, eventId n))
       (notifications (snd (sendEventReminders env_ok town 1699956800000 1699956800000)))
     = [(''carol'', EVENT_REMINDER, Val ''e1''), (''alice'', EVENT_REMINDER, Val ''e1'')] \<and>
   filter (in_window 1699956800000 1699956800000) (events village)
     = [(''e5'', workshop), (''e1'', fair)] \<and>
   map (\<lambda>n. (userId n, ntype n, eventId n))
       (notifications (snd (sendEventReminders env_ok village 1699956800000 1699956800000)))
     = [(''carol'', EVENT_REMINDER, Val ''e1''), (''alice'', EVENT_REMINDER, Val ''e1''),
        (''bob'', EVENT_REMINDER, Val ''e5'')] \<and>
   filter (in_window 1600000000000 1600000000000) (events town) = [] \<and>
   notifications (snd (sendEventReminders env_ok town 1600000000000 1600000000000)) = [] \<and>
   commits (snd (sendEventReminders env_ok town 1600000000000 1600000000000)) = []"
proof -
  have ok: "get_error env_ok = None" "set_error env_ok = None"
    by (simp_all add: env_ok_def)
  have start: "notifications town = []" "commits town = []" "notifications village = []"
    by (simp_all add: town_def village_def campus_def)
  have accepts: "commit_error env_ok = None" "batch_limit env_ok = 500"
    by (simp_all add: env_ok_def)
  have soon: "filter (in_window 1699956800000 1699956800000) (events town) = [(''e1'', fair)]"
    using in_town_window by (simp add: in_next_24h_window)
  have none: "filter (in_window 1600000000000 1600000000000) (events town) = []"
    using out_of_town_window by (simp add: in_next_24h_window)
  have both: "filter (in_window 1699956800000 1699956800000) (events village)
                = [(''e5'', workshop), (''e1'', fair)]"
    by (simp add: in_window_def ts_le_def fromMillis_def plus_24h_def village_def fair_def
          workshop_def)
  have idle: "notifications (snd (sendEventReminders env_ok town 1600000000000 1600000000000)) = [] \<and>
              commits (snd (sendEventReminders env_ok town 1600000000000 1600000000000)) = []"
    using sendEventReminders_window [OF ok, of town 1600000000000 1600000000000]
    by (simp add: none start)
  have run: "map (\<lambda>n. (userId n, ntype n, eventId n))
       (notifications (snd (sendEventReminders env_ok town 1699956800000 1699956800000)))
     = [(''carol'', EVENT_REMINDER, Val ''e1''), (''alice'', EVENT_REMINDER, Val ''e1'')]"
    by (simp add: sendEventReminders_fields [OF ok] soon start accepts order_by_date_single
          reminders_of_def or_empty_def reminder_notification_def fair_def reg_carol_def
          reg_alice_def)
  have ordered: "order_by_date [(''e5'', workshop), (''e1'', fair)]
                   = [(''e1'', fair), (''e5'', workshop)]"
    by (simp add: order_by_date_def date_key_def fair_def workshop_def)
  have due: "reminders_of [(''e1'', fair), (''e5'', workshop)] =
      [reminder_notification ''Fair'' ''e1'' reg_carol,
       reminder_notification ''Fair'' ''e1'' reg_alice,
       reminder_notification ''Workshop'' ''e5'' reg_bob]"
    by (simp add: reminders_of_def or_empty_def fair_def workshop_def)
  have fits: "length (reminders_of [(''e5'', workshop), (''e1'', fair)]) \<le> 500"
    by (simp add: reminders_of_def or_empty_def fair_def workshop_def)
  have run2: "map (\<lambda>n. (userId n, ntype n, eventId n))
       (notifications (snd (sendEventReminders env_ok village 1699956800000 1699956800000)))
     = [(''carol'', EVENT_REMINDER, Val ''e1''), (''alice'', EVENT_REMINDER, Val ''e1''),
        (''bob'', EVENT_REMINDER, Val ''e5'')]"
    by (simp add: sendEventReminders_fields [OF ok] both start accepts ordered due fits
          reminder_notification_def reg_carol_def reg_alice_def reg_bob_def)
  show ?thesis
    using ok soon both none idle run run2 by simp
qed

section \<open>Failures of the fan-out\<close>



section \<open>A descriptor without a value\<close>

text \<open>
  Claim C10. When the read works and the descriptor has type department or class but
  its value is missing or empty, audience resolution does not fail: it returns one user
  per student document of the institution, in the store's order and with the data of
  the document, as it does for the general audience.
\<close>

theorem getTargetAudience_missing_value_is_general:
  assumes "get_error env = None"
    and "aud_type ta = DEPARTMENT \<or> aud_type ta = CLASS"
    and "aud_value ta = None \<or> aud_value ta = Some ''''"
  shows "\<exists>us. getTargetAudience env w inst ta = Inr us \<and>
           map user_data us =
             filter (\<lambda>u. user_institution u = inst \<and> role u = STUDENT) (users w) \<and>
           map uid us =
             map (\<lambda>d. case uid_field d of Some u \<Rightarrow> u | None \<Rightarrow> user_doc_id d)
                 (map user_data us) \<and>
           getTargetAudience env w inst \<lparr>aud_type = GENERAL, aud_value = None\<rparr> = Inr us"
proof -
  from assms(3) have "\<not> truthy (aud_value ta)"
    by (auto simp: truthy_simps)
  then have query: "audience_query inst ta = (\<lambda>u. user_institution u = inst \<and> role u = STUDENT)"
    by (simp add: audience_query_def Let_def)
  have general: "audience_query inst \<lparr>aud_type = GENERAL, aud_value = None\<rparr>
                   = (\<lambda>u. user_institution u = inst \<and> role u = STUDENT)"
    by (simp add: audience_query_def Let_def)
  show ?thesis
    using assms(1)
    by (intro exI [of _ "map snapshot_user
            (filter (\<lambda>u. user_institution u = inst \<and> role u = STUDENT) (users w))"])
       (simp add: getTargetAudience_def query general snapshot_user_def comp_def)
qed

theorem getTargetAudience_missing_value_is_general_witness:
  "get_error env_ok = None \<and>
   getTargetAudience env_ok campus ''State University''
       \<lparr>aud_type = DEPARTMENT, aud_value = None\<rparr>
     = Inr [\<lparr>uid = ''alice'', user_data = alice\<rparr>, \<lparr>uid = ''bob'', user_data = bob\<rparr>] \<and>
   getTargetAudience env_ok campus ''State University''
       \<lparr>aud_type = CLASS, aud_value = Some ''''\<rparr>
     = Inr [\<lparr>uid = ''alice'', user_data = alice\<rparr>, \<lparr>uid = ''bob'', user_data = bob\<rparr>] \<and>
   filter (\<lambda>u. user_institution u = ''State University'' \<and> role u = STUDENT) (users campus)
     = [alice, bob]"
proof -
  have ok: "get_error env_ok = None" by (simp add: env_ok_def)
  show ?thesis
    using ok
      getTargetAudience_missing_value_is_general [OF ok, of
        "\<lparr>aud_type = DEPARTMENT, aud_value = None\<rparr>" campus "''State University''"]
      getTargetAudience_missing_value_is_general [OF ok, of
        "\<lparr>aud_type = CLASS, aud_value = Some ''''\<rparr>" campus "''State University''"]
    by (simp add: getTargetAudience_def audience_query_def snapshot_user_def truthy_simps
          campus_def alice_def bob_def carol_def dave_def erin_def)
qed

end
